theory Spec2Isabelle
  imports Main "HOL-Library.Sublist" "HOL-Library.AList"
begin

section \<open>Python strings\<close>

text \<open>
  A Python \<open>str\<close> is modelled as a \<open>string\<close>; a \<open>char\<close> stands for a code point
  below 256. \<open>str.strip()\<close> and \<open>str.lstrip()\<close> without argument remove the characters
  for which \<open>str.isspace()\<close> holds; below 256 these are the twelve listed here.
\<close>

definition py_isspace :: "char \<Rightarrow> bool" where
  "py_isspace c \<longleftrightarrow>
     c \<in> set [CHR 0x09, CHR 0x0A, CHR 0x0B, CHR 0x0C, CHR 0x0D,
              CHR 0x1C, CHR 0x1D, CHR 0x1E, CHR 0x1F, CHR 0x20, CHR 0x85, CHR 0xA0]"

definition lstrip :: "string \<Rightarrow> string" where
  "lstrip s = dropWhile py_isspace s"

definition rstrip :: "string \<Rightarrow> string" where
  "rstrip s = rev (dropWhile py_isspace (rev s))"

definition strip :: "string \<Rightarrow> string" where
  "strip s = rstrip (lstrip s)"

text \<open>
  \<open>sep.join(xs)\<close> and \<open>s.split(sep)\<close>. The split scans from the left and cuts at
  every occurrence of the separator that does not overlap the previous cut; an empty
  separator raises \<open>ValueError\<close>, which \<open>py_split\<close> returns as an error value.
\<close>

fun py_join :: "string \<Rightarrow> string list \<Rightarrow> string" where
  "py_join sep [] = []"
| "py_join sep [x] = x"
| "py_join sep (x # y # ys) = x @ sep @ py_join sep (y # ys)"

function split_from :: "string \<Rightarrow> string \<Rightarrow> string list" where
  "split_from sep [] = [[]]"
| "split_from sep (c # cs) =
     (if sep \<noteq> [] \<and> prefix sep (c # cs)
      then [] # split_from sep (drop (length sep) (c # cs))
      else (case split_from sep cs of
              [] \<Rightarrow> [[c]]
            | x # xs \<Rightarrow> (c # x) # xs))"
  by pat_completeness auto
termination
  by (relation "measure (\<lambda>(sep, s). length s)") (auto simp: Suc_le_eq)

section \<open>Values and errors\<close>

text \<open>
  The values a YAML document decodes to, as far as the program looks into them.
  A mapping keeps its insertion order; its keys are strings.
\<close>

datatype pyval =
    PNone
  | PBool bool
  | PStr string
  | PList "pyval list"
  | PDict "(string \<times> pyval) list"

text \<open>
  Exceptions are values. \<open>lib_error\<close> holds what the collaborators raise (the YAML
  decoder and encoder, the template engine); \<open>OutsideModel\<close> marks a library path
  that the model does not follow: the model stops there, and no theorem below takes such
  a value for a result of the library. \<open>NoConstructor\<close> is the \<open>ConstructorError\<close> of
  \<open>construct_undefined\<close>, whose message is \<open>could not determine a constructor for the tag\<close>
  followed by the tag in quotes; it carries the tag. \<open>error\<close> holds what the
  program's own statements raise, and \<open>Library\<close> wraps an exception that crossed the
  program from a collaborator. The two \<open>ValueError\<close>s of \<open>load_file\<close> are told apart
  by their message: \<open>MalformedDocument\<close> is the one of line 53 (it carries the offending
  first section), \<open>MissingDelimiters\<close> the one of line 56 (it carries the file name).
\<close>

datatype lib_error =
    ConstructorError string
  | NoConstructor string
  | YAMLError string
  | RenderError string
  | OutsideModel string

datatype error =
    MalformedDocument string
  | MissingDelimiters string
  | EmptySeparator
  | DumpsException
  | FileNotFoundError string
  | IsADirectoryError string
  | KeyError string
  | TypeError string
  | UnboundLocalError string
  | ValueError string
  | RuntimeError string
  | Library lib_error

definition py_split :: "string \<Rightarrow> string \<Rightarrow> error + string list" where
  "py_split s sep = (if sep = [] then Inl EmptySeparator else Inr (split_from sep s))"

section \<open>The file store\<close>

datatype entry = File string | Dir

type_synonym store = "string \<rightharpoonup> entry"

definition open_read :: "store \<Rightarrow> string \<Rightarrow> error + string" where
  "open_read fs name =
     (case fs name of
        None \<Rightarrow> Inl (FileNotFoundError name)
      | Some Dir \<Rightarrow> Inl (IsADirectoryError name)
      | Some (File text) \<Rightarrow> Inr text)"

section \<open>PandocMarkdown\<close>

text \<open>
  The class of lines 21 to 80. The decoder and the encoder are constructor arguments;
  either may raise. \<open>frontmatter\<close> holds whatever the decoder returned (\<open>PNone\<close> for an
  empty block); \<open>content\<close> is an optional string so that the test of line 72 has both
  of its branches.
\<close>

record PandocMarkdown =
  delim :: string
  loader :: "string \<Rightarrow> lib_error + pyval"
  writer :: "pyval \<Rightarrow> lib_error + string"
  initialized :: bool
  frontmatter :: pyval
  content :: "string option"

definition init :: "string \<Rightarrow> (string \<Rightarrow> lib_error + pyval)
    \<Rightarrow> (pyval \<Rightarrow> lib_error + string) \<Rightarrow> PandocMarkdown" where
  "init d l w =
     \<lparr>delim = d, loader = l, writer = w, initialized = False,
      frontmatter = PDict [], content = Some []\<rparr>"

definition load_file :: "PandocMarkdown \<Rightarrow> store \<Rightarrow> string \<Rightarrow> error + PandocMarkdown" where
  "load_file self fs filename =
     (case open_read fs filename of
        Inl e \<Rightarrow> Inl e
      | Inr text \<Rightarrow>
         (case py_split text (delim self) of
            Inl e \<Rightarrow> Inl e
          | Inr sections \<Rightarrow>
              if strip (sections ! 0) \<noteq> [] then Inl (MalformedDocument (sections ! 0))
              else if length sections < 3 then Inl (MissingDelimiters filename)
              else (case loader self (sections ! 1) of
                      Inl e \<Rightarrow> Inl (Library e)
                    | Inr fm \<Rightarrow>
                        Inr (self\<lparr>frontmatter := fm,
                                  content := Some (py_join (delim self) (drop 2 sections)),
                                  initialized := True\<rparr>))))"

definition create_from_file :: "string \<Rightarrow> (string \<Rightarrow> lib_error + pyval)
    \<Rightarrow> (pyval \<Rightarrow> lib_error + string) \<Rightarrow> store \<Rightarrow> string \<Rightarrow> error + PandocMarkdown" where
  "create_from_file d l w fs filename = load_file (init d l w) fs filename"

definition dumps :: "PandocMarkdown \<Rightarrow> error + string" where
  "dumps self =
     (if frontmatter self = PNone \<or> content self = None then Inl DumpsException
      else (case writer self (frontmatter self) of
              Inl e \<Rightarrow> Inl (Library e)
            | Inr enc \<Rightarrow>
                Inr (py_join [CHR 0x0A]
                       [delim self, strip enc, delim self, lstrip (the (content self))])))"


section \<open>The YAML decoder\<close>

text \<open>
  A YAML document after composition: every node carries its resolved tag. Scalars hold
  their text.
\<close>

datatype node =
    ScalarNode string string
  | SequenceNode string "node list"
  | MappingNode string "(node \<times> node) list"

fun node_tag :: "node \<Rightarrow> string" where
  "node_tag (ScalarNode t v) = t"
| "node_tag (SequenceNode t ns) = t"
| "node_tag (MappingNode t ps) = t"

text \<open>
  The constructors a tag can be bound to. \<open>Yaml_other\<close> stands for the library's
  constructors of numbers, dates, binary data, ordered maps, pairs, sets and Python
  objects, whose results are outside the model; \<open>Join\<close> is the handler of line 13.
\<close>

datatype ctor =
    Yaml_null | Yaml_bool | Yaml_str | Yaml_seq | Yaml_map | Yaml_other | Join

record tables =
  yaml_constructors :: "(string \<times> ctor) list"
  yaml_multi_constructors :: "string list"

definition SafeConstructor :: tables where
  "SafeConstructor =
     \<lparr>yaml_constructors =
        [(''tag:yaml.org,2002:null'', Yaml_null),
         (''tag:yaml.org,2002:bool'', Yaml_bool),
         (''tag:yaml.org,2002:int'', Yaml_other),
         (''tag:yaml.org,2002:float'', Yaml_other),
         (''tag:yaml.org,2002:binary'', Yaml_other),
         (''tag:yaml.org,2002:timestamp'', Yaml_other),
         (''tag:yaml.org,2002:omap'', Yaml_other),
         (''tag:yaml.org,2002:pairs'', Yaml_other),
         (''tag:yaml.org,2002:set'', Yaml_other),
         (''tag:yaml.org,2002:str'', Yaml_str),
         (''tag:yaml.org,2002:seq'', Yaml_seq),
         (''tag:yaml.org,2002:map'', Yaml_map)],
      yaml_multi_constructors = []\<rparr>"

definition FullConstructor :: tables where
  "FullConstructor =
     \<lparr>yaml_constructors = yaml_constructors SafeConstructor @
        [(''tag:yaml.org,2002:python/none'', Yaml_null),
         (''tag:yaml.org,2002:python/bool'', Yaml_bool),
         (''tag:yaml.org,2002:python/str'', Yaml_other),
         (''tag:yaml.org,2002:python/unicode'', Yaml_other),
         (''tag:yaml.org,2002:python/bytes'', Yaml_other),
         (''tag:yaml.org,2002:python/int'', Yaml_other),
         (''tag:yaml.org,2002:python/long'', Yaml_other),
         (''tag:yaml.org,2002:python/float'', Yaml_other),
         (''tag:yaml.org,2002:python/complex'', Yaml_other),
         (''tag:yaml.org,2002:python/list'', Yaml_seq),
         (''tag:yaml.org,2002:python/tuple'', Yaml_other),
         (''tag:yaml.org,2002:python/dict'', Yaml_map)],
      yaml_multi_constructors = [''tag:yaml.org,2002:python/name:'']\<rparr>"

definition UnsafeConstructor :: tables where
  "UnsafeConstructor =
     FullConstructor\<lparr>yaml_multi_constructors :=
        yaml_multi_constructors FullConstructor @
        [''tag:yaml.org,2002:python/module:'', ''tag:yaml.org,2002:python/object:'',
         ''tag:yaml.org,2002:python/object/new:'', ''tag:yaml.org,2002:python/object/apply:'']\<rparr>"

text \<open>
  The four loader classes and \<open>yaml.add_constructor(tag, constructor)\<close>, which without a
  \<open>Loader\<close> argument writes to \<open>Loader\<close>, \<open>FullLoader\<close> and \<open>UnsafeLoader\<close> and leaves
  \<open>SafeLoader\<close> alone. \<open>registered\<close> is the state after line 18.
\<close>

record loaders =
  SafeLoader :: tables
  FullLoader :: tables
  UnsafeLoader :: tables
  Loader :: tables

definition library_loaders :: loaders where
  "library_loaders =
     \<lparr>SafeLoader = SafeConstructor, FullLoader = FullConstructor,
      UnsafeLoader = UnsafeConstructor, Loader = UnsafeConstructor\<rparr>"

definition cls_add_constructor :: "string \<Rightarrow> ctor \<Rightarrow> tables \<Rightarrow> tables" where
  "cls_add_constructor t c T = T\<lparr>yaml_constructors := AList.update t c (yaml_constructors T)\<rparr>"

definition add_constructor :: "string \<Rightarrow> ctor \<Rightarrow> loaders \<Rightarrow> loaders" where
  "add_constructor t c L =
     L\<lparr>Loader := cls_add_constructor t c (Loader L),
       FullLoader := cls_add_constructor t c (FullLoader L),
       UnsafeLoader := cls_add_constructor t c (UnsafeLoader L)\<rparr>"

definition registered :: loaders where
  "registered = add_constructor ''!join'' Join library_loaders"

text \<open>
  The spellings the resolver tags as booleans; any other text under that tag is outside
  the model. \<open>py_str\<close> is \<open>str(i)\<close> on the values line 15 can meet.
\<close>

definition bool_values :: "(string \<times> bool) list" where
  "bool_values =
     [(''yes'', True), (''Yes'', True), (''YES'', True), (''no'', False), (''No'', False),
      (''NO'', False), (''true'', True), (''True'', True), (''TRUE'', True),
      (''false'', False), (''False'', False), (''FALSE'', False), (''on'', True),
      (''On'', True), (''ON'', True), (''off'', False), (''Off'', False), (''OFF'', False)]"

fun py_str :: "pyval \<Rightarrow> lib_error + string" where
  "py_str (PStr s) = Inr s"
| "py_str PNone = Inr ''None''"
| "py_str (PBool b) = Inr (if b then ''True'' else ''False'')"
| "py_str (PList xs) = Inl (OutsideModel ''str of a list'')"
| "py_str (PDict kvs) = Inl (OutsideModel ''str of a dict'')"

fun str_all :: "pyval list \<Rightarrow> lib_error + string list" where
  "str_all [] = Inr []"
| "str_all (v # vs) =
     (case py_str v of
        Inl e \<Rightarrow> Inl e
      | Inr s \<Rightarrow> (case str_all vs of Inl e \<Rightarrow> Inl e | Inr ss \<Rightarrow> Inr (s # ss)))"

text \<open>
  The tag handler of lines 13 to 15. Line 14 asks the loader to construct the children of
  the node, which the dispatch below does; \<open>join\<close> is line 15, applied to what line 14
  returned.
\<close>

definition join :: "pyval list \<Rightarrow> lib_error + pyval" where
  "join seq =
     (case str_all seq of
        Inl e \<Rightarrow> Inl e
      | Inr ss \<Rightarrow> Inr (PStr (concat ss)))"

text \<open>
  \<open>construct_scalar\<close> of the safe constructor: the text of a scalar node; for a mapping
  node, the scalar under its first key tagged \<open>value\<close>, the other entries being left
  unconstructed.
\<close>

function (sequential) construct_scalar :: "node \<Rightarrow> lib_error + string"
and value_entry :: "(node \<times> node) list \<Rightarrow> (lib_error + string) option"
where
  "construct_scalar (ScalarNode t v) = Inr v"
| "construct_scalar (SequenceNode t ns) = Inl (ConstructorError ''expected a scalar node, but found sequence'')"
| "construct_scalar (MappingNode t ps) =
     (case value_entry ps of
        Some r \<Rightarrow> r
      | None \<Rightarrow> Inl (ConstructorError ''expected a scalar node, but found mapping''))"
| "value_entry [] = None"
| "value_entry ((k, v) # ps) =
     (if node_tag k = ''tag:yaml.org,2002:value'' then Some (construct_scalar v)
      else value_entry ps)"
  by pat_completeness auto
termination
  by (relation "measure (case_sum size (size_list (size_prod size size)))") auto

text \<open>
  \<open>construct_object\<close> looks the node's tag up in the tables of the loader class and runs
  the constructor found there; a tag without entry falls to the prefix table and then to
  the handler registered under \<open>None\<close>, which raises. A scalar constructor applied to a
  sequence raises, and applied to a mapping it goes through \<open>construct_scalar\<close>. The result
  is the value held once the document is complete. In a mapping a later entry replaces
  the value of an earlier one with the same key; a mapping built with a merge key or a
  value key is outside the model.
\<close>

function (sequential) construct_object :: "tables \<Rightarrow> node \<Rightarrow> lib_error + pyval"
and construct_sequence :: "tables \<Rightarrow> node list \<Rightarrow> lib_error + pyval list"
and construct_mapping :: "tables \<Rightarrow> (node \<times> node) list \<Rightarrow> lib_error + (string \<times> pyval) list"
where
  "construct_object T (ScalarNode t v) =
     (case map_of (yaml_constructors T) t of
        Some Yaml_str \<Rightarrow> Inr (PStr v)
      | Some Yaml_null \<Rightarrow> Inr PNone
      | Some Yaml_bool \<Rightarrow>
          (case map_of bool_values v of
             Some b \<Rightarrow> Inr (PBool b)
           | None \<Rightarrow> Inl (OutsideModel ''bool spelling''))
      | Some Yaml_seq \<Rightarrow> Inl (ConstructorError ''expected a sequence node, but found scalar'')
      | Some Yaml_map \<Rightarrow> Inl (ConstructorError ''expected a mapping node, but found scalar'')
      | Some Join \<Rightarrow> Inl (ConstructorError ''expected a sequence node, but found scalar'')
      | Some Yaml_other \<Rightarrow> Inl (OutsideModel t)
      | None \<Rightarrow>
          if list_ex (\<lambda>p. prefix p t) (yaml_multi_constructors T) then Inl (OutsideModel t)
          else Inl (NoConstructor t))"
| "construct_object T (SequenceNode t ns) =
     (case map_of (yaml_constructors T) t of
        Some Yaml_seq \<Rightarrow>
          (case construct_sequence T ns of Inl e \<Rightarrow> Inl e | Inr vs \<Rightarrow> Inr (PList vs))
      | Some Join \<Rightarrow>
          (case construct_sequence T ns of Inl e \<Rightarrow> Inl e | Inr seq \<Rightarrow> join seq)
      | Some Yaml_str \<Rightarrow> Inl (ConstructorError ''expected a scalar node, but found sequence'')
      | Some Yaml_null \<Rightarrow> Inl (ConstructorError ''expected a scalar node, but found sequence'')
      | Some Yaml_bool \<Rightarrow> Inl (ConstructorError ''expected a scalar node, but found sequence'')
      | Some Yaml_map \<Rightarrow> Inl (ConstructorError ''expected a mapping node, but found sequence'')
      | Some Yaml_other \<Rightarrow> Inl (OutsideModel t)
      | None \<Rightarrow>
          if list_ex (\<lambda>p. prefix p t) (yaml_multi_constructors T) then Inl (OutsideModel t)
          else Inl (NoConstructor t))"
| "construct_object T (MappingNode t ps) =
     (case map_of (yaml_constructors T) t of
        Some Yaml_map \<Rightarrow>
          (case construct_mapping T ps of Inl e \<Rightarrow> Inl e | Inr kvs \<Rightarrow> Inr (PDict kvs))
      | Some Yaml_seq \<Rightarrow> Inl (ConstructorError ''expected a sequence node, but found mapping'')
      | Some Join \<Rightarrow> Inl (ConstructorError ''expected a sequence node, but found mapping'')
      | Some Yaml_str \<Rightarrow>
          (case construct_scalar (MappingNode t ps) of Inl e \<Rightarrow> Inl e | Inr v \<Rightarrow> Inr (PStr v))
      | Some Yaml_null \<Rightarrow>
          (case construct_scalar (MappingNode t ps) of Inl e \<Rightarrow> Inl e | Inr v \<Rightarrow> Inr PNone)
      | Some Yaml_bool \<Rightarrow>
          (case construct_scalar (MappingNode t ps) of
             Inl e \<Rightarrow> Inl e
           | Inr v \<Rightarrow>
               (case map_of bool_values v of
                  Some b \<Rightarrow> Inr (PBool b)
                | None \<Rightarrow> Inl (OutsideModel ''bool spelling'')))
      | Some Yaml_other \<Rightarrow> Inl (OutsideModel t)
      | None \<Rightarrow>
          if list_ex (\<lambda>p. prefix p t) (yaml_multi_constructors T) then Inl (OutsideModel t)
          else Inl (NoConstructor t))"
| "construct_sequence T [] = Inr []"
| "construct_sequence T (n # ns) =
     (case construct_object T n of
        Inl e \<Rightarrow> Inl e
      | Inr v \<Rightarrow> (case construct_sequence T ns of Inl e \<Rightarrow> Inl e | Inr vs \<Rightarrow> Inr (v # vs)))"
| "construct_mapping T [] = Inr []"
| "construct_mapping T ((k, v) # ps) =
     (if node_tag k \<in> set [''tag:yaml.org,2002:merge'', ''tag:yaml.org,2002:value'']
      then Inl (OutsideModel (node_tag k))
      else (case construct_object T k of
              Inl e \<Rightarrow> Inl e
            | Inr (PStr key) \<Rightarrow>
                (case construct_object T v of
                   Inl e \<Rightarrow> Inl e
                 | Inr val \<Rightarrow>
                     (case construct_mapping T ps of
                        Inl e \<Rightarrow> Inl e
                      | Inr kvs \<Rightarrow> Inr ((key, case map_of kvs key of None \<Rightarrow> val | Some val' \<Rightarrow> val')
                                # AList.delete key kvs)))
            | Inr _ \<Rightarrow> Inl (OutsideModel ''key that is not a string'')))"
  by pat_completeness auto
termination
  by (relation "measure (case_sum (\<lambda>(T, n). size n)
                  (case_sum (\<lambda>(T, ns). size_list size ns)
                            (\<lambda>(T, ps). size_list (size_prod size size) ps)))") auto

text \<open>
  \<open>yaml.safe_load\<close> and \<open>yaml.full_load\<close>: compose the stream, then construct with the
  tables of the loader class. \<open>compose\<close> is the library's scanner, parser, composer and
  resolver; an empty stream composes to no node and loads as \<open>None\<close>.
\<close>

definition load :: "tables \<Rightarrow> (string \<Rightarrow> lib_error + node option) \<Rightarrow> string
    \<Rightarrow> lib_error + pyval" where
  "load T compose stream =
     (case compose stream of
        Inl e \<Rightarrow> Inl e
      | Inr None \<Rightarrow> Inr PNone
      | Inr (Some n) \<Rightarrow> construct_object T n)"

definition safe_load :: "(string \<Rightarrow> lib_error + node option) \<Rightarrow> string \<Rightarrow> lib_error + pyval" where
  "safe_load compose stream = load (SafeLoader registered) compose stream"

definition full_load :: "(string \<Rightarrow> lib_error + node option) \<Rightarrow> string \<Rightarrow> lib_error + pyval" where
  "full_load compose stream = load (FullLoader registered) compose stream"

text \<open>
  A metadata or configuration block in its simplest form: a mapping from string keys to
  plain strings or to sequences of strings tagged \<open>!join\<close>. \<open>block_node\<close> is the node such a
  block composes to, \<open>fvalue\<close> the string a value stands for, and \<open>block_value\<close> the
  mapping in which every value is replaced by that string.
\<close>

datatype fval = Plain string | Joined "string list"

fun fnode :: "fval \<Rightarrow> node" where
  "fnode (Plain s) = ScalarNode ''tag:yaml.org,2002:str'' s"
| "fnode (Joined ss) = SequenceNode ''!join'' (map (ScalarNode ''tag:yaml.org,2002:str'') ss)"

fun fvalue :: "fval \<Rightarrow> pyval" where
  "fvalue (Plain s) = PStr s"
| "fvalue (Joined ss) = PStr (concat ss)"

definition block_node :: "(string \<times> fval) list \<Rightarrow> node" where
  "block_node kvs =
     MappingNode ''tag:yaml.org,2002:map''
       (map (\<lambda>kv. (ScalarNode ''tag:yaml.org,2002:str'' (fst kv), fnode (snd kv))) kvs)"

definition block_value :: "(string \<times> fval) list \<Rightarrow> pyval" where
  "block_value kvs = PDict (map (\<lambda>kv. (fst kv, fvalue (snd kv))) kvs)"

section \<open>A small composer and encoder\<close>

text \<open>
  Where the program is run on a concrete document, the library's composer and the writer
  of line 26 are replaced by a pair that covers flat mappings of words, and is outside
  the model on anything else. A word starts with a letter and consists of letters,
  digits, dots, underscores, slashes and hyphens; the resolver tags it as a boolean or as
  null when it is one of their spellings, and as a string otherwise. A stream is blank
  (no document), a block mapping with one \<open>key: value\<close> per line, where a value may also
  be a \<open>!join\<close> flow sequence of words, or a flow mapping \<open>{key: value, ...}\<close> on one line.
  The writer emits a mapping of words, booleans and \<open>None\<close> in flow style on one line of at
  most 80 characters, as \<open>yaml.dump\<close> does with \<open>default_flow_style=None\<close>.
\<close>

definition is_word :: "string \<Rightarrow> bool" where
  "is_word s \<longleftrightarrow>
     s \<noteq> [] \<and> hd s \<in> set ''abcdefghijklmnopqrstuvwxyzABCDEFGHIJKLMNOPQRSTUVWXYZ''
     \<and> list_all (\<lambda>c. c \<in> set ''abcdefghijklmnopqrstuvwxyzABCDEFGHIJKLMNOPQRSTUVWXYZ0123456789._/-'') s"

definition flat_scalar :: "string \<Rightarrow> node option" where
  "flat_scalar v =
     (if \<not> is_word v then None
      else if v \<in> set (map fst bool_values) then Some (ScalarNode ''tag:yaml.org,2002:bool'' v)
      else if v \<in> set [''null'', ''Null'', ''NULL''] then Some (ScalarNode ''tag:yaml.org,2002:null'' v)
      else Some (ScalarNode ''tag:yaml.org,2002:str'' v))"

definition flat_value :: "string \<Rightarrow> node option" where
  "flat_value v =
     (if prefix ''!join ['' v \<and> last v = CHR '']''
      then (let es = map flat_scalar (split_from '', '' (butlast (drop 7 v)))
            in if list_all (\<lambda>e. e \<noteq> None) es then Some (SequenceNode ''!join'' (map the es))
               else None)
      else flat_scalar v)"

definition flat_pair :: "(string \<Rightarrow> node option) \<Rightarrow> string \<Rightarrow> (node \<times> node) option" where
  "flat_pair val line =
     (case split_from '': '' line of
        [k, v] \<Rightarrow>
          (case (flat_scalar k, val v) of
             (Some kn, Some vn) \<Rightarrow> Some (kn, vn)
           | _ \<Rightarrow> None)
      | _ \<Rightarrow> None)"

definition flat_pairs :: "(node \<times> node) option list \<Rightarrow> lib_error + node option" where
  "flat_pairs ps =
     (if list_all (\<lambda>p. p \<noteq> None) ps
      then Inr (Some (MappingNode ''tag:yaml.org,2002:map'' (map the ps)))
      else Inl (OutsideModel ''stream outside the flat syntax''))"

definition flat_compose :: "string \<Rightarrow> lib_error + node option" where
  "flat_compose s =
     (let t = rev (dropWhile (\<lambda>c. c = CHR 0x0A) (rev (dropWhile (\<lambda>c. c = CHR 0x0A) s))) in
      if t = [] then Inr None
      else if t = ''{}'' then Inr (Some (MappingNode ''tag:yaml.org,2002:map'' []))
      else if hd t = CHR ''{'' \<and> last t = CHR ''}''
      then flat_pairs (map (flat_pair flat_scalar) (split_from '', '' (butlast (tl t))))
      else flat_pairs (map (flat_pair flat_value) (split_from [CHR 0x0A] t)))"

definition flat_load :: "string \<Rightarrow> lib_error + pyval" where
  "flat_load = safe_load flat_compose"

fun flat_item :: "string \<times> pyval \<Rightarrow> string option" where
  "flat_item (k, PStr v) =
     (if flat_scalar k = Some (ScalarNode ''tag:yaml.org,2002:str'' k)
         \<and> flat_scalar v = Some (ScalarNode ''tag:yaml.org,2002:str'' v)
      then Some (k @ '': '' @ v) else None)"
| "flat_item (k, PBool b) =
     (if flat_scalar k = Some (ScalarNode ''tag:yaml.org,2002:str'' k)
      then Some (k @ '': '' @ (if b then ''true'' else ''false'')) else None)"
| "flat_item (k, PNone) =
     (if flat_scalar k = Some (ScalarNode ''tag:yaml.org,2002:str'' k)
      then Some (k @ '': null'') else None)"
| "flat_item (k, v) = None"

definition flat_dump :: "pyval \<Rightarrow> lib_error + string" where
  "flat_dump v =
     (case v of
        PDict kvs \<Rightarrow>
          (let line = ''{'' @ py_join '', '' (map (\<lambda>kv. the (flat_item kv)) kvs) @ ''}''
           in if distinct (map fst kvs) \<and> list_all (\<lambda>kv. flat_item kv \<noteq> None) kvs
                 \<and> length line \<le> 80
              then Inr (line @ [CHR 0x0A])
              else Inl (OutsideModel ''value outside the flat syntax''))
      | _ \<Rightarrow> Inl (OutsideModel ''not a mapping''))"

section \<open>Dictionaries, truth values, paths\<close>

text \<open>
  \<open>v[k]\<close>, \<open>k in v\<close>, \<open>v[k] = x\<close>, \<open>bool(v)\<close> and \<open>for x in v\<close> for a string key
  \<open>k\<close> on the values of the model. On a string, \<open>in\<close> is the substring test.
\<close>

definition subscript :: "pyval \<Rightarrow> string \<Rightarrow> error + pyval" where
  "subscript v k =
     (case v of
        PDict kvs \<Rightarrow> (case map_of kvs k of None \<Rightarrow> Inl (KeyError k) | Some x \<Rightarrow> Inr x)
      | _ \<Rightarrow> Inl (TypeError ''subscript''))"

definition py_in :: "string \<Rightarrow> pyval \<Rightarrow> error + bool" where
  "py_in k v =
     (case v of
        PDict kvs \<Rightarrow> Inr (k \<in> set (map fst kvs))
      | PList xs \<Rightarrow> Inr (PStr k \<in> set xs)
      | PStr s \<Rightarrow> Inr (sublist k s)
      | _ \<Rightarrow> Inl (TypeError ''argument is not iterable''))"

definition set_item :: "pyval \<Rightarrow> string \<Rightarrow> pyval \<Rightarrow> error + pyval" where
  "set_item v k x =
     (case v of
        PDict kvs \<Rightarrow> Inr (PDict (AList.update k x kvs))
      | _ \<Rightarrow> Inl (TypeError ''item assignment''))"

fun truthy :: "pyval \<Rightarrow> bool" where
  "truthy PNone = False"
| "truthy (PBool b) = b"
| "truthy (PStr s) = (s \<noteq> [])"
| "truthy (PList xs) = (xs \<noteq> [])"
| "truthy (PDict kvs) = (kvs \<noteq> [])"

definition py_iter :: "pyval \<Rightarrow> error + pyval list" where
  "py_iter v =
     (case v of
        PList xs \<Rightarrow> Inr xs
      | PDict kvs \<Rightarrow> Inr (map (\<lambda>kv. PStr (fst kv)) kvs)
      | PStr s \<Rightarrow> Inr (map (\<lambda>c. PStr [c]) s)
      | _ \<Rightarrow> Inl (TypeError ''object is not iterable''))"

definition removesuffix :: "string \<Rightarrow> string \<Rightarrow> string" where
  "removesuffix s suf =
     (if suf \<noteq> [] \<and> suffix suf s then take (length s - length suf) s else s)"

text \<open>
  A \<open>pathlib\<close> path on POSIX: a root (empty, one slash or two) and the parts after it.
  \<open>Path_of\<close> is the constructor \<open>Path(s)\<close>, \<open>path_str\<close> is \<open>str(p)\<close>, \<open>path_div\<close> is the
  operator \<open>/\<close>. The store is keyed by \<open>path_str\<close>.
\<close>

datatype path = Path (root: string) (parts: "string list")

definition Path_of :: "string \<Rightarrow> path" where
  "Path_of s =
     Path (if prefix ''//'' s \<and> \<not> prefix ''///'' s then ''//''
           else if prefix ''/'' s then ''/'' else [])
          (filter (\<lambda>c. c \<noteq> [] \<and> c \<noteq> ''.'') (split_from ''/'' s))"

definition path_str :: "path \<Rightarrow> string" where
  "path_str p =
     (if root p = [] \<and> parts p = [] then ''.'' else root p @ py_join ''/'' (parts p))"

definition path_div :: "path \<Rightarrow> path \<Rightarrow> path" where
  "path_div a b = (if root b \<noteq> [] then b else Path (root a) (parts a @ parts b))"

definition parent :: "path \<Rightarrow> path" where
  "parent p = Path (root p) (butlast (parts p))"

definition path_name :: "path \<Rightarrow> string" where
  "path_name p = (if parts p = [] then [] else last (parts p))"

text \<open>
  \<open>stem\<close>: the name up to its last dot, unless that dot is the first or the last
  character of the name or there is none.
\<close>

definition stem :: "path \<Rightarrow> string" where
  "stem p =
     (let n = path_name p; after = takeWhile (\<lambda>c. c \<noteq> CHR ''.'') (rev n); i = length n - length after - 1
      in if CHR ''.'' \<in> set n \<and> 0 < i \<and> i < length n - 1 then take i n else n)"

definition relative_to :: "path \<Rightarrow> path \<Rightarrow> error + path" where
  "relative_to p base =
     (if root p = root base \<and> prefix (parts base) (parts p)
      then Inr (Path [] (drop (length (parts base)) (parts p)))
      else Inl (ValueError ''not in the subpath''))"

section \<open>The collaborators\<close>

text \<open>
  What the program calls and does not define: the YAML composer behind \<open>yaml.safe_load\<close>,
  \<open>yaml.dump\<close> with the options of line 26, \<open>chevron.render\<close>, the enumeration of a
  directory's entries, and the converter run by \<open>subprocess.run\<close>, which returns its exit
  code, its error stream and the store it leaves.
\<close>

record library =
  compose :: "string \<Rightarrow> lib_error + node option"
  yaml_dump :: "pyval \<Rightarrow> lib_error + string"
  render :: "string \<Rightarrow> pyval \<Rightarrow> lib_error + string"
  listdir :: "string \<Rightarrow> string list"
  run :: "pyval list \<Rightarrow> store \<Rightarrow> int \<times> string \<times> store"

text \<open>
  \<open>Path.glob\<close> with a pattern of one component: the entries of the directory, in the
  order of enumeration, whose name the pattern matches. \<open>wild\<close> matches \<open>*\<close> and \<open>?\<close>;
  a pattern with a bracket or with two adjacent stars is outside the model.
\<close>

fun wild :: "string \<Rightarrow> string \<Rightarrow> bool" where
  "wild [] s = (s = [])"
| "wild (p # ps) [] = (p = CHR ''*'' \<and> wild ps [])"
| "wild (p # ps) (c # cs) =
     (if p = CHR ''*'' then wild ps (c # cs) \<or> wild (p # ps) cs
      else (p = CHR ''?'' \<or> p = c) \<and> wild ps cs)"

definition glob :: "library \<Rightarrow> path \<Rightarrow> string \<Rightarrow> error + path list" where
  "glob lib dir pattern =
     (if CHR ''['' \<in> set pattern \<or> sublist ''**'' pattern
      then Inl (Library (OutsideModel ''pattern''))
      else Inr (map (\<lambda>n. path_div dir (Path [] [n]))
                 (filter (wild pattern) (listdir lib (path_str dir)))))"

definition open_write :: "store \<Rightarrow> string \<Rightarrow> string \<Rightarrow> error + store" where
  "open_write fs name s =
     (case fs name of
        Some Dir \<Rightarrow> Inl (IsADirectoryError name)
      | _ \<Rightarrow> Inr (fs(name \<mapsto> File s)))"

section \<open>gen_cmd\<close>

text \<open>
  Lines 106 to 136. Line 118 is an annotation without value: it makes \<open>out_path\<close> a local
  name and binds nothing, and its expression is not evaluated. The list of line 120 is
  built left to right, so the three configuration entries are read before \<open>out_path\<close> is.
  A \<open>Path\<close> in the command stands there as its string.
\<close>

definition to_path :: "pyval \<Rightarrow> error + path" where
  "to_path v = (case v of PStr s \<Rightarrow> Inr (Path_of s) | _ \<Rightarrow> Inl (TypeError ''expected str''))"

definition gen_cmd :: "pyval \<Rightarrow> string \<Rightarrow> string option \<Rightarrow> error + (pyval list \<times> path)" where
  "gen_cmd CFG plain_path plain_path_out0 =
     (let plain_path_out = (case plain_path_out0 of None \<Rightarrow> plain_path | Some p \<Rightarrow> p);
          out_path = (None :: path option)
      in case subscript CFG ''header'' of Inl e \<Rightarrow> Inl e | Inr header \<Rightarrow>
         case subscript CFG ''before'' of Inl e \<Rightarrow> Inl e | Inr before \<Rightarrow>
         case subscript CFG ''after'' of Inl e \<Rightarrow> Inl e | Inr after \<Rightarrow>
         case out_path of None \<Rightarrow> Inl (UnboundLocalError ''out_path'') | Some out \<Rightarrow>
         case subscript CFG ''content'' of Inl e \<Rightarrow> Inl e | Inr c \<Rightarrow>
         case to_path c of Inl e \<Rightarrow> Inl e | Inr content_dir \<Rightarrow>
         case subscript CFG ''filters'' of Inl e \<Rightarrow> Inl e | Inr fl \<Rightarrow>
         case py_iter fl of Inl e \<Rightarrow> Inl e | Inr filter_paths \<Rightarrow>
           Inr ([PStr ''pandoc'',
                 PStr ''--include-in-header'', header,
                 PStr ''--include-before-body'', before,
                 PStr ''--include-after-body'', after,
                 PStr ''--mathjax'',
                 PStr ''-f'', PStr ''markdown'',
                 PStr ''-t'', PStr ''html5'',
                 PStr ''-o'', PStr (path_str out),
                 PStr (path_str (path_div content_dir (Path_of (plain_path @ ''.md''))))]
                @ concat (map (\<lambda>filter_path. [PStr ''--filter'', filter_path]) filter_paths),
                out))"

definition get_plain_path :: "pyval \<Rightarrow> path \<Rightarrow> error + path" where
  "get_plain_path CFG fname =
     (case subscript CFG ''content'' of Inl e \<Rightarrow> Inl e | Inr c \<Rightarrow>
      case to_path c of Inl e \<Rightarrow> Inl e | Inr base \<Rightarrow>
        relative_to (Path_of (removesuffix (path_str fname) ''.md'')) base)"

text \<open>The configuration of the example in lines 84 to 101, as \<open>yaml.full_load\<close> returns it.\<close>

definition example_cfg :: pyval where
  "example_cfg =
     PDict [(''resources'', PStr ''./resources/''),
            (''content'', PStr ''./content/''),
            (''public'', PStr ''./public/''),
            (''header'', PStr ''./resources/header.html''),
            (''before'', PStr ''./resources/before-body.html''),
            (''after'', PStr ''./resources/after-body.html''),
            (''filters'', PList [PStr ''./resources/pandoc-filters/csv_code_table.py'',
                                 PStr ''./resources/pandoc-filters/dendron_links_html.py'']),
            (''make_index_files'', PBool True),
            (''generated_index_suffix'', PStr ''._index.md''),
            (''mustache_rerender'', PBool True)]"

section \<open>A fragment of the template engine\<close>

text \<open>
  \<open>chevron.render\<close> on templates made of literal text and variable tags: a tag is the
  text between \<open>{{\<close> and the next \<open>}}\<close>, trimmed; a dotted name is looked up through
  nested mappings from the top of the context, a missing key renders as nothing, and a
  string is rendered with its ampersands, double quotes and angle brackets escaped. Sections, comments,
  partials, unescaped tags and delimiter changes are outside the fragment.
\<close>

fun split_once :: "string \<Rightarrow> string \<Rightarrow> (string \<times> string) option" where
  "split_once sep [] = None"
| "split_once sep (c # cs) =
     (if prefix sep (c # cs) then Some ([], drop (length sep) (c # cs))
      else (case split_once sep cs of
              None \<Rightarrow> None
            | Some (a, b) \<Rightarrow> Some (c # a, b)))"

fun get_key :: "pyval \<Rightarrow> string list \<Rightarrow> lib_error + pyval option" where
  "get_key v [] = Inr (Some v)"
| "get_key (PDict kvs) (k # ks) =
     (case map_of kvs k of
        None \<Rightarrow> Inr None
      | Some v \<Rightarrow> get_key v ks)"
| "get_key v (k # ks) = Inl (OutsideModel ''lookup in a value that is not a mapping'')"

definition html_escape :: "string \<Rightarrow> string" where
  "html_escape s =
     concat (map (\<lambda>c. if c = CHR ''&'' then ''&amp;''
                       else if c = CHR 0x22 then ''&quot;''
                       else if c = CHR ''<'' then ''&lt;''
                       else if c = CHR ''>'' then ''&gt;''
                       else [c]) s)"

definition variable :: "pyval \<Rightarrow> string \<Rightarrow> lib_error + string" where
  "variable data key =
     (if key = ''.'' then Inl (OutsideModel ''implicit iterator'')
      else (case get_key data (split_from ''.'' key) of
              Inl e \<Rightarrow> Inl e
            | Inr None \<Rightarrow> Inr []
            | Inr (Some PNone) \<Rightarrow> Inr []
            | Inr (Some (PBool b)) \<Rightarrow> Inr (if b then ''True'' else ''False'')
            | Inr (Some (PStr s)) \<Rightarrow> Inr (html_escape s)
            | Inr (Some (PList xs)) \<Rightarrow>
                if xs = [] then Inr [] else Inl (OutsideModel ''str of a list'')
            | Inr (Some (PDict kvs)) \<Rightarrow>
                if kvs = [] then Inr [] else Inl (OutsideModel ''str of a dict'')))"

function chevron_render :: "string \<Rightarrow> pyval \<Rightarrow> lib_error + string" where
  "chevron_render template data =
     (case split_once ''{{'' template of
        None \<Rightarrow> Inr template
      | Some (literal, rest) \<Rightarrow>
          (case split_once ''}}'' rest of
             None \<Rightarrow>
               if rest = [] then Inl (OutsideModel ''delimiter at the end'')
               else Inl (RenderError ''unclosed tag'')
           | Some (tag, rest') \<Rightarrow>
               if tag = [] \<or> hd tag \<in> set ''!#^/>={&'' then Inl (OutsideModel ''tag kind'')
               else (case variable data (strip tag) of
                       Inl e \<Rightarrow> Inl e
                     | Inr s \<Rightarrow>
                         (case chevron_render rest' data of
                            Inl e \<Rightarrow> Inl e
                          | Inr out \<Rightarrow> Inr (literal @ s @ out)))))"
  by pat_completeness auto
termination
proof (relation "measure (\<lambda>(template, data). length template)")
  have len: "split_once sep s = Some (a, b) \<Longrightarrow> length b \<le> length s" for sep s a b
    by (induction s arbitrary: a) (auto split: if_splits option.splits)
  have lt: "split_once ''}}'' s = Some (a, b) \<Longrightarrow> length b < length s" for s a b
    by (induction s arbitrary: a) (auto split: if_splits option.splits)
  show "wf (measure (\<lambda>(template, data). length template))" by simp
  fix template :: string and data :: pyval and x2 x y rest tag rest'
  assume "split_once ''{{'' template = Some x2" "(x, y) = x2"
    and "split_once ''}}'' y = Some rest" "(tag, rest') = rest"
  then have "length rest' < length y" "length y \<le> length template"
    using lt [of y tag rest'] len [of "''{{''" template x y] by auto
  then show "((rest', data), (template, data)) \<in> measure (\<lambda>(template, data). length template)"
    by simp
qed

section \<open>add_index_page\<close>

definition open_value :: "store \<Rightarrow> pyval \<Rightarrow> error + string" where
  "open_value fs v =
     (case v of
        PStr p \<Rightarrow> open_read fs p
      | PBool b \<Rightarrow> Inl (Library (OutsideModel ''file descriptor''))
      | _ \<Rightarrow> Inl (TypeError ''expected str, bytes or os.PathLike object''))"

text \<open>Lines 160 to 162.\<close>

definition append_template :: "store \<Rightarrow> PandocMarkdown \<Rightarrow> error + PandocMarkdown" where
  "append_template fs doc =
     (case py_in ''template_file'' (frontmatter doc) of
        Inl e \<Rightarrow> Inl e
      | Inr False \<Rightarrow> Inr doc
      | Inr True \<Rightarrow>
          (case subscript (frontmatter doc) ''template_file'' of
             Inl e \<Rightarrow> Inl e
           | Inr tf \<Rightarrow>
               (case open_value fs tf of
                  Inl e \<Rightarrow> Inl e
                | Inr t \<Rightarrow>
                    (case content doc of
                       None \<Rightarrow> Inl (TypeError ''unsupported operand'')
                     | Some body \<Rightarrow> Inr (doc\<lparr>content := Some (body @ t)\<rparr>)))))"

text \<open>The loop of lines 166 to 169 over the paths the glob yields.\<close>

fun downstream_frontmatter :: "library \<Rightarrow> store \<Rightarrow> path list \<Rightarrow> error + pyval list" where
  "downstream_frontmatter lib fs [] = Inr []"
| "downstream_frontmatter lib fs (downstream_path # rest) =
     (case create_from_file ''---'' (safe_load (compose lib)) (yaml_dump lib) fs
             (path_str downstream_path) of
        Inl e \<Rightarrow> Inl e
      | Inr d \<Rightarrow>
          (case set_item (frontmatter d) ''__filename__'' (PStr (path_str downstream_path)) of
             Inl e \<Rightarrow> Inl e
           | Inr fm_temp \<Rightarrow>
               (case downstream_frontmatter lib fs rest of
                  Inl e \<Rightarrow> Inl e
                | Inr fms \<Rightarrow> Inr (fm_temp # fms))))"

definition add_index_page :: "pyval \<Rightarrow> library \<Rightarrow> store \<Rightarrow> path \<Rightarrow> error + (path \<times> store)" where
  "add_index_page CFG lib fs path_original =
     (case subscript CFG ''generated_index_suffix'' of
        Inl e \<Rightarrow> Inl e
      | Inr (PStr suf) \<Rightarrow>
          (let path_new = Path_of (removesuffix (path_str path_original) ''.md'' @ suf) in
           case create_from_file ''---'' (safe_load (compose lib)) (yaml_dump lib) fs
                  (path_str path_original) of
             Inl e \<Rightarrow> Inl e
           | Inr doc \<Rightarrow>
           case append_template fs doc of
             Inl e \<Rightarrow> Inl e
           | Inr doc1 \<Rightarrow>
           case glob lib (parent path_original) (stem path_original @ ''*'') of
             Inl e \<Rightarrow> Inl e
           | Inr paths \<Rightarrow>
           case downstream_frontmatter lib fs paths of
             Inl e \<Rightarrow> Inl e
           | Inr children \<Rightarrow>
           case content doc1 of
             None \<Rightarrow> Inl (TypeError ''template is not a string'')
           | Some body \<Rightarrow>
           case render lib body (PDict [(''children'', PList children)]) of
             Inl e \<Rightarrow> Inl (Library e)
           | Inr new_content \<Rightarrow>
           case open_write fs (path_str path_new) [] of
             Inl e \<Rightarrow> Inl e
           | Inr fs0 \<Rightarrow>
           case dumps (doc1\<lparr>content := Some new_content\<rparr>) of
             Inl e \<Rightarrow> Inl e
           | Inr s \<Rightarrow> Inr (path_new, fs0(path_str path_new \<mapsto> File s)))
      | Inr _ \<Rightarrow> Inl (TypeError ''can only concatenate str''))"

section \<open>gen_page\<close>

text \<open>Lines 210 to 215, the last step of \<open>gen_page\<close>.\<close>

definition rerender :: "pyval \<Rightarrow> library \<Rightarrow> path \<Rightarrow> PandocMarkdown \<Rightarrow> store \<Rightarrow> error + store" where
  "rerender CFG lib out_path doc fs =
     (case subscript CFG ''mustache_rerender'' of
        Inl e \<Rightarrow> Inl e
      | Inr flag \<Rightarrow>
          if truthy flag
          then (case open_read fs (path_str out_path) of
                  Inl e \<Rightarrow> Inl e
                | Inr page \<Rightarrow>
                    (case render lib page (PDict [(''children'', frontmatter doc)]) of
                       Inl e \<Rightarrow> Inl (Library e)
                     | Inr content_new \<Rightarrow> open_write fs (path_str out_path) content_new))
          else Inr fs)"

text \<open>Lines 197 to 200: the index step, which yields the output name and the store.\<close>

definition index_step :: "pyval \<Rightarrow> library \<Rightarrow> store \<Rightarrow> path \<Rightarrow> PandocMarkdown
    \<Rightarrow> error + (string option \<times> store)" where
  "index_step CFG lib fs md_path doc =
     (case subscript CFG ''make_index_files'' of
        Inl e \<Rightarrow> Inl e
      | Inr mk \<Rightarrow>
          if truthy mk
          then (case py_in ''index'' (frontmatter doc) of
                  Inl e \<Rightarrow> Inl e
                | Inr False \<Rightarrow> Inr (None, fs)
                | Inr True \<Rightarrow>
                    (case subscript (frontmatter doc) ''index'' of
                       Inl e \<Rightarrow> Inl e
                     | Inr ix \<Rightarrow>
                         if truthy ix
                         then (case add_index_page CFG lib fs md_path of
                                 Inl e \<Rightarrow> Inl e
                               | Inr (gen_idx_path, fs1) \<Rightarrow>
                                   (case get_plain_path CFG gen_idx_path of
                                      Inl e \<Rightarrow> Inl e
                                    | Inr p \<Rightarrow> Inr (Some (path_str p), fs1)))
                         else Inr (None, fs)))
          else Inr (None, fs))"

definition isfile :: "store \<Rightarrow> string \<Rightarrow> bool" where
  "isfile fs p = (case fs p of Some (File t) \<Rightarrow> True | _ \<Rightarrow> False)"

definition gen_page :: "pyval \<Rightarrow> library \<Rightarrow> store \<Rightarrow> path \<Rightarrow> error + store" where
  "gen_page CFG lib fs md_path =
     (if \<not> isfile fs (path_str md_path) then Inl (FileNotFoundError (path_str md_path))
      else case get_plain_path CFG md_path of
             Inl e \<Rightarrow> Inl e
           | Inr plain_path \<Rightarrow>
           case create_from_file ''---'' (safe_load (compose lib)) (yaml_dump lib) fs
                  (path_str md_path) of
             Inl e \<Rightarrow> Inl e
           | Inr doc \<Rightarrow>
           case index_step CFG lib fs md_path doc of
             Inl e \<Rightarrow> Inl e
           | Inr (plain_path_out, fs1) \<Rightarrow>
           case gen_cmd CFG (path_str plain_path) plain_path_out of
             Inl e \<Rightarrow> Inl e
           | Inr (cmd, out_path) \<Rightarrow>
               (case run lib cmd fs1 of
                  (returncode, stderr, fs2) \<Rightarrow>
                    if returncode \<noteq> 0 then Inl (RuntimeError stderr)
                    else rerender CFG lib out_path doc fs2))"

text \<open>
  The collaborators for concrete runs: the small composer and encoder, the template
  fragment, a given directory listing, and a converter that exits with 0 and leaves the
  store as it is.
\<close>

definition example_lib :: "(string \<Rightarrow> string list) \<Rightarrow> library" where
  "example_lib listing =
     \<lparr>compose = flat_compose, yaml_dump = flat_dump, render = chevron_render,
      listdir = listing, run = (\<lambda>cmd fs. (0, [], fs))\<rparr>"

text \<open>
  The record the loop of lines 166 to 169 appends for a sibling: its metadata with the
  key \<open>__filename__\<close> set to its path.
\<close>

definition augment :: "path \<Rightarrow> (string \<times> pyval) list \<Rightarrow> pyval" where
  "augment p kvs = PDict (AList.update ''__filename__'' (PStr (path_str p)) kvs)"

text \<open>
  Four small sites: the document \<open>content/a.md\<close> with the metadata \<open>title: Hello\<close>; a
  directory \<open>content\<close> with an index document, one sibling and an unrelated file; the
  same with a template file named in the index document, whose body is empty; and a
  directory whose index document has a question mark in its name.
\<close>

definition page_store :: store where
  "page_store =
     [''content/a.md'' \<mapsto> File ''---\<newline>title: Hello\<newline>---\<newline>Hello body.\<newline>'']"

definition empty_listing :: "string \<Rightarrow> string list" where
  "empty_listing d = []"

definition example_listing :: "string \<Rightarrow> string list" where
  "example_listing d = (if d = ''content'' then [''notes.md'', ''notes.1.md'', ''other.md''] else [])"

definition example_store :: store where
  "example_store =
     [''content/notes.md'' \<mapsto> File ''---\<newline>index: true\<newline>---\<newline>Index\<newline>'',
      ''content/notes.1.md'' \<mapsto> File ''---\<newline>title: One\<newline>---\<newline>body one\<newline>'',
      ''content/other.md'' \<mapsto> File ''---\<newline>title: Other\<newline>---\<newline>other\<newline>'']"

definition template_store :: store where
  "template_store =
     [''content/notes.md'' \<mapsto>
        File ''---\<newline>index: true\<newline>template_file: tmpl.txt\<newline>---'',
      ''content/notes.1.md'' \<mapsto> File ''---\<newline>title: One\<newline>---\<newline>body one\<newline>'',
      ''tmpl.txt'' \<mapsto> File ''List of notes\<newline>'']"

definition wildcard_listing :: "string \<Rightarrow> string list" where
  "wildcard_listing d = (if d = ''.'' then [''a?.md'', ''ab.md''] else [])"

definition wildcard_store :: store where
  "wildcard_store =
     [''a?.md'' \<mapsto> File ''---\<newline>index: true\<newline>---\<newline>Index\<newline>'',
      ''ab.md'' \<mapsto> File ''---\<newline>title: B\<newline>---\<newline>b\<newline>'']"

section \<open>Splitting and joining\<close>

lemma split_from_nonempty: "split_from sep s \<noteq> []"
  by (induction sep s rule: split_from.induct) (auto split: list.splits)

lemma split_from_sep: "sep \<noteq> [] \<Longrightarrow> split_from sep (sep @ r) = [] # split_from sep r"
  by (cases sep) auto

lemma join_Cons: "ys \<noteq> [] \<Longrightarrow> py_join sep (x # ys) = x @ sep @ py_join sep ys"
  by (cases ys) auto

lemma join_split: "py_join sep (split_from sep s) = s"
proof (induction sep s rule: split_from.induct)
  case (1 sep)
  then show ?case by simp
next
  case (2 sep c cs)
  show ?case
  proof (cases "sep \<noteq> [] \<and> prefix sep (c # cs)")
    case True
    then obtain r where r: "c # cs = sep @ r" by (auto simp: prefix_def)
    with True 2 have "py_join sep (split_from sep r) = r" by simp
    with True r show ?thesis
      by (simp add: split_from_sep join_Cons split_from_nonempty del: split_from.simps)
  next
    case False
    obtain x xs where sp: "split_from sep cs = x # xs"
      using split_from_nonempty [of sep cs] by (cases "split_from sep cs") auto
    from False 2 sp have ih: "py_join sep (x # xs) = cs" by auto
    from False sp have "split_from sep (c # cs) = (c # x) # xs" by auto
    with ih show ?thesis by (cases xs) auto
  qed
qed



lemma length_ge3: "3 \<le> length xs \<Longrightarrow> \<exists>a b c r. xs = a # b # c # r"
  by (cases xs; simp; cases "tl xs"; simp; cases "tl (tl xs)"; auto)

lemma sections_decomp:
  assumes "3 \<le> length (split_from sep raw)"
  shows "raw = split_from sep raw ! 0 @ sep @ split_from sep raw ! 1 @ sep
                 @ py_join sep (drop 2 (split_from sep raw))"
proof -
  obtain s0 s1 s2 rest where sp: "split_from sep raw = s0 # s1 # s2 # rest"
    using length_ge3 [OF assms] by blast
  have "raw = py_join sep (split_from sep raw)" by (simp add: join_split)
  with sp show ?thesis by simp
qed

lemma first_section:
  "sep \<noteq> [] \<Longrightarrow> split_from sep raw = s0 # rest \<Longrightarrow>
     prefix s0 raw \<and> (\<forall>i<length s0. \<not> prefix sep (drop i raw))"
proof (induction sep raw arbitrary: s0 rest rule: split_from.induct)
  case (1 sep)
  then show ?case by simp
next
  case (2 sep c cs)
  note ne = "2.prems"(1) and eq = "2.prems"(2)
  show ?case
  proof (cases "prefix sep (c # cs)")
    case True
    with eq ne show ?thesis by simp
  next
    case False
    obtain x xs where sp: "split_from sep cs = x # xs"
      using split_from_nonempty [of sep cs] by (cases "split_from sep cs") auto
    from False eq sp have s0: "s0 = c # x" by simp
    from False have "\<not> (sep \<noteq> [] \<and> prefix sep (c # cs))" by simp
    from "2.IH"(2) [OF this ne sp]
    have ih1: "prefix x cs" and ih2: "\<forall>i<length x. \<not> prefix sep (drop i cs)" by simp_all
    have "\<not> prefix sep (drop i (c # cs))" if "i < length s0" for i
    proof (cases i)
      case 0
      with False show ?thesis by simp
    next
      case (Suc j)
      with that s0 have "j < length x" by simp
      with ih2 Suc show ?thesis by simp
    qed
    moreover from ih1 s0 have "prefix s0 (c # cs)" by simp
    ultimately show ?thesis by blast
  qed
qed

lemma lstrip_first_section:
  assumes "prefix s0 raw" and "strip s0 \<noteq> []"
  shows "\<exists>k<length s0. lstrip raw = drop k raw"
proof -
  from assms(1) obtain tail where t: "raw = s0 @ tail" by (auto simp: prefix_def)
  have ne: "dropWhile py_isspace s0 \<noteq> []"
  proof
    assume "dropWhile py_isspace s0 = []"
    with assms(2) show False by (simp add: strip_def rstrip_def lstrip_def)
  qed
  then have ex: "\<exists>x\<in>set s0. \<not> py_isspace x" by (simp add: dropWhile_eq_Nil_conv)
  let ?k = "length (takeWhile py_isspace s0)"
  have "length (takeWhile py_isspace s0 @ dropWhile py_isspace s0) = length s0" by simp
  then have "?k + length (dropWhile py_isspace s0) = length s0" by (simp only: length_append)
  with ne have k: "?k < length s0" by (cases "dropWhile py_isspace s0") auto
  have "dropWhile py_isspace raw = dropWhile py_isspace s0 @ tail"
    using ex t by (auto simp: dropWhile_append1)
  also have "\<dots> = drop ?k s0 @ tail" by (simp add: dropWhile_eq_drop)
  also have "\<dots> = drop ?k raw" using k t by simp
  finally have "lstrip raw = drop ?k raw" by (simp add: lstrip_def)
  with k show ?thesis by blast
qed



lemma first_section_rest:
  assumes "split_from sep raw = s0 # rest"
  shows "(rest = [] \<and> raw = s0) \<or> (\<exists>tail. raw = s0 @ sep @ tail)"
proof -
  have "raw = py_join sep (s0 # rest)" using assms join_split [of sep raw] by simp
  then show ?thesis by (cases rest) auto
qed

lemma blank_first_section:
  assumes "split_from sep raw = s0 # rest"
      and "sep \<noteq> []" and "\<not> py_isspace (hd sep)"
      and "lstrip raw \<noteq> []" and "\<not> prefix sep (lstrip raw)"
  shows "strip s0 \<noteq> []"
proof
  assume "strip s0 = []"
  then have "rstrip (lstrip s0) = []" by (simp add: strip_def)
  then have "dropWhile py_isspace (rev (lstrip s0)) = []" by (simp add: rstrip_def)
  then have "\<forall>x\<in>set (lstrip s0). py_isspace x" by (simp add: dropWhile_eq_Nil_conv)
  moreover have "lstrip s0 = [] \<or> \<not> py_isspace (hd (lstrip s0))"
    unfolding lstrip_def by (metis hd_dropWhile)
  ultimately have l0: "lstrip s0 = []" by (cases "lstrip s0") auto
  then have all: "\<forall>x\<in>set s0. py_isspace x" by (simp add: lstrip_def dropWhile_eq_Nil_conv)
  from first_section_rest [OF assms(1)] show False
  proof
    assume "rest = [] \<and> raw = s0"
    with l0 assms(4) show False by simp
  next
    assume "\<exists>tail. raw = s0 @ sep @ tail"
    then obtain tail where r: "raw = s0 @ sep @ tail" by blast
    from assms(2,3) have "dropWhile py_isspace (sep @ tail) = sep @ tail"
      by (cases sep) auto
    with all have "lstrip raw = sep @ tail"
      unfolding r lstrip_def by (simp add: dropWhile_append2)
    with assms(5) show False by simp
  qed
qed

lemmas ev = load_file_def open_read_def py_split_def init_def strip_def lstrip_def rstrip_def
  py_isspace_def flat_load_def flat_compose_def flat_pairs_def flat_pair_def flat_value_def
  flat_scalar_def is_word_def flat_dump_def dumps_def safe_load_def full_load_def load_def
  registered_def add_constructor_def cls_add_constructor_def library_loaders_def
  SafeConstructor_def FullConstructor_def UnsafeConstructor_def join_def bool_values_def Let_def

section \<open>Tag dispatch\<close>

lemma str_all_strs: "str_all (map PStr strs) = Inr strs"
  by (induction strs) auto

lemma construct_sequence_strs:
  assumes "map_of (yaml_constructors T) ''tag:yaml.org,2002:str'' = Some Yaml_str"
  shows "construct_sequence T (map (ScalarNode ''tag:yaml.org,2002:str'') strs) = Inr (map PStr strs)"
  using assms by (induction strs) auto

lemma full_str: "map_of (yaml_constructors (FullLoader registered)) ''tag:yaml.org,2002:str'' = Some Yaml_str"
  by (simp add: registered_def add_constructor_def cls_add_constructor_def library_loaders_def
      FullConstructor_def SafeConstructor_def)

lemma full_join: "map_of (yaml_constructors (FullLoader registered)) ''!join'' = Some Join"
  by (simp add: registered_def add_constructor_def cls_add_constructor_def library_loaders_def
      FullConstructor_def SafeConstructor_def)

lemma safe_join: "map_of (yaml_constructors (SafeLoader registered)) ''!join'' = None"
  by (simp add: registered_def add_constructor_def cls_add_constructor_def library_loaders_def
      SafeConstructor_def)

lemma safe_multi: "yaml_multi_constructors (SafeLoader registered) = []"
  by (simp add: registered_def add_constructor_def cls_add_constructor_def library_loaders_def
      SafeConstructor_def)

lemma safe_str: "map_of (yaml_constructors (SafeLoader registered)) ''tag:yaml.org,2002:str'' = Some Yaml_str"
  by (simp add: registered_def add_constructor_def cls_add_constructor_def library_loaders_def
      SafeConstructor_def)

lemma safe_map: "map_of (yaml_constructors (SafeLoader registered)) ''tag:yaml.org,2002:map'' = Some Yaml_map"
  by (simp add: registered_def add_constructor_def cls_add_constructor_def library_loaders_def
      SafeConstructor_def)

lemma full_map: "map_of (yaml_constructors (FullLoader registered)) ''tag:yaml.org,2002:map'' = Some Yaml_map"
  by (simp add: registered_def add_constructor_def cls_add_constructor_def library_loaders_def
      FullConstructor_def SafeConstructor_def)

lemma full_fnode: "construct_object (FullLoader registered) (fnode v) = Inr (fvalue v)"
  by (cases v) (simp_all add: full_str full_join construct_sequence_strs [OF full_str]
      str_all_strs join_def)

lemma delete_absent: "k \<notin> fst ` set al \<Longrightarrow> AList.delete k al = al"
  by (induction al) auto

lemma full_block:
  assumes "distinct (map fst kvs)"
  shows "construct_mapping (FullLoader registered)
           (map (\<lambda>kv. (ScalarNode ''tag:yaml.org,2002:str'' (fst kv), fnode (snd kv))) kvs)
         = Inr (map (\<lambda>kv. (fst kv, fvalue (snd kv))) kvs)"
  using assms
proof (induction kvs)
  case Nil
  then show ?case by simp
next
  case (Cons kv kvs)
  obtain k v where kv: "kv = (k, v)" by (cases kv)
  from Cons.prems kv have notin: "k \<notin> fst ` set (map (\<lambda>kv. (fst kv, fvalue (snd kv))) kvs)"
    by (auto simp: image_iff)
  then have "map_of (map (\<lambda>kv. (fst kv, fvalue (snd kv))) kvs) k = None"
    by (simp add: map_of_eq_None_iff)
  with Cons kv notin show ?case
    by (simp add: full_str full_fnode delete_absent)
qed

lemma safe_block:
  assumes "(k, Joined ss) \<in> set kvs"
  shows "construct_mapping (SafeLoader registered)
           (map (\<lambda>kv. (ScalarNode ''tag:yaml.org,2002:str'' (fst kv), fnode (snd kv))) kvs)
         = Inl (NoConstructor ''!join'')"
  using assms
proof (induction kvs)
  case Nil
  then show ?case by simp
next
  case (Cons kv kvs)
  obtain k' v where kv: "kv = (k', v)" by (cases kv)
  show ?case
  proof (cases v)
    case (Plain s)
    with Cons kv show ?thesis by (auto simp: safe_str)
  next
    case (Joined ss')
    with kv show ?thesis by (simp add: safe_str safe_join safe_multi)
  qed
qed

section \<open>Globbing and the steps of the index page\<close>

lemma wild_prefix:
  assumes "\<forall>c\<in>set st. c \<noteq> CHR ''*'' \<and> c \<noteq> CHR ''?''"
  shows "wild (st @ ''*'') n = prefix st n"
  using assms
proof (induction st arbitrary: n)
  case Nil
  show ?case by (induction n) auto
next
  case (Cons a st)
  then show ?case by (cases n) auto
qed

lemma double_in_snoc: "sublist [a, a] (st @ [a]) \<Longrightarrow> a \<in> set st"
proof -
  assume "sublist [a, a] (st @ [a])"
  then obtain ps ss where e: "st @ [a] = ps @ [a, a] @ ss" by (auto simp: sublist_def)
  show ?thesis
  proof (cases ss rule: rev_cases)
    case Nil
    with e have "st @ [a] = (ps @ [a]) @ [a]" by simp
    then have "st = ps @ [a]" by (simp only: append1_eq_conv)
    then show ?thesis by simp
  next
    case (snoc ss' x)
    with e have "st @ [a] = (ps @ [a, a] @ ss') @ [x]" by simp
    then have "st = ps @ [a, a] @ ss'" by (simp only: append1_eq_conv)
    then show ?thesis by simp
  qed
qed

lemma glob_prefix:
  assumes "\<forall>c\<in>set st. c \<notin> set ''*?[''"
  shows "glob lib dir (st @ ''*'') =
           Inr (map (\<lambda>n. path_div dir (Path [] [n]))
                  (filter (prefix st) (listdir lib (path_str dir))))"
proof -
  from assms have a: "\<forall>c\<in>set st. c \<noteq> CHR ''*'' \<and> c \<noteq> CHR ''?''" and b: "CHR ''['' \<notin> set st"
    and c: "CHR ''*'' \<notin> set st"
    by auto
  from c have "\<not> sublist ''**'' (st @ ''*'')" using double_in_snoc [of "CHR ''*''" st] by auto
  moreover from b have "CHR ''['' \<notin> set (st @ ''*'')" by simp
  moreover have "filter (wild (st @ ''*'')) xs = filter (prefix st) xs" for xs
    using wild_prefix [OF a] by (intro filter_cong) auto
  ultimately show ?thesis by (simp add: glob_def)
qed

lemma stem_prefix: "prefix (stem p) (path_name p)"
  by (simp add: stem_def Let_def take_is_prefix)

lemma downstream_all:
  assumes "list_all2 (\<lambda>p kvs. \<exists>d. create_from_file ''---'' (safe_load (compose lib)) (yaml_dump lib) fs
                          (path_str p) = Inr d \<and> frontmatter d = PDict kvs) paths fms"
  shows "downstream_frontmatter lib fs paths = Inr (map2 augment paths fms)"
  using assms
  by (induction paths fms rule: list_all2_induct) (auto simp: set_item_def augment_def)

lemma add_index_page_steps:
  assumes "subscript CFG ''generated_index_suffix'' = Inr (PStr suf)"
      and "create_from_file ''---'' (safe_load (compose lib)) (yaml_dump lib) fs
             (path_str path_original) = Inr doc"
      and "append_template fs doc = Inr doc1"
      and "glob lib (parent path_original) (stem path_original @ ''*'') = Inr paths"
      and "downstream_frontmatter lib fs paths = Inr children"
      and "content doc1 = Some body"
      and "render lib body (PDict [(''children'', PList children)]) = Inr new_content"
      and "fs (path_str (Path_of (removesuffix (path_str path_original) ''.md'' @ suf))) \<noteq> Some Dir"
      and "dumps (doc1\<lparr>content := Some new_content\<rparr>) = Inr s"
  shows "add_index_page CFG lib fs path_original =
           Inr (Path_of (removesuffix (path_str path_original) ''.md'' @ suf),
                fs(path_str (Path_of (removesuffix (path_str path_original) ''.md'' @ suf))
                     \<mapsto> File s))"
  using assms
  by (simp add: add_index_page_def open_write_def Let_def split: option.splits entry.splits)

lemmas pv = path_str_def Path_of_def parent_def stem_def path_name_def path_div_def
  removesuffix_def Let_def

lemmas cv = create_from_file_def example_lib_def ev

section \<open>The converter is not consulted\<close>

lemma downstream_frontmatter_run:
  "downstream_frontmatter (lib\<lparr>run := converter\<rparr>) fs paths = downstream_frontmatter lib fs paths"
  by (induction paths) (simp_all cong: sum.case_cong)

lemma add_index_page_run:
  "add_index_page CFG (lib\<lparr>run := converter\<rparr>) fs p = add_index_page CFG lib fs p"
  by (simp add: add_index_page_def glob_def downstream_frontmatter_run
      cong: sum.case_cong pyval.case_cong option.case_cong)

lemma index_step_run:
  "index_step CFG (lib\<lparr>run := converter\<rparr>) fs p doc = index_step CFG lib fs p doc"
  by (simp add: index_step_def add_index_page_run
      cong: sum.case_cong bool.case_cong if_cong)

lemma gen_cmd_raises: "gen_cmd CFG plain_path plain_path_out = Inr r \<longleftrightarrow> False"
  by (simp add: gen_cmd_def split: sum.splits)

section \<open>Parsing\<close>

text \<open>
  Claim C7. Whenever \<open>load_file\<close> returns a document, its body is the sections from
  index 2 onward rejoined with the marker, and the file's text is exactly the first
  section, the marker, the metadata section, the marker and that body: whatever follows
  the second marker, further markers included, is kept verbatim.
\<close>

theorem load_file_body:
  assumes "open_read fs filename = Inr raw"
      and "load_file self fs filename = Inr doc"
  shows "content doc = Some (py_join (delim self) (drop 2 (split_from (delim self) raw)))
       \<and> raw = split_from (delim self) raw ! 0 @ delim self @ split_from (delim self) raw ! 1
               @ delim self @ py_join (delim self) (drop 2 (split_from (delim self) raw))"
proof -
  from assms have len: "3 \<le> length (split_from (delim self) raw)"
    and c: "content doc = Some (py_join (delim self) (drop 2 (split_from (delim self) raw)))"
    by (auto simp: load_file_def py_split_def split: if_splits sum.splits)
  from sections_decomp [OF len] c show ?thesis by blast
qed

theorem load_file_body_witness:
  "load_file (init ''---'' flat_load flat_dump)
      [''a.md'' \<mapsto> File ''---\<newline>a: b\<newline>---\<newline>x---y---z''] ''a.md''
     = Inr ((init ''---'' flat_load flat_dump)\<lparr>frontmatter := PDict [(''a'', PStr ''b'')],
           content := Some ''\<newline>x---y---z'', initialized := True\<rparr>)
   \<and> Some ''\<newline>x---y---z''
     = Some (py_join ''---'' (drop 2 (split_from ''---'' ''---\<newline>a: b\<newline>---\<newline>x---y---z'')))"
proof -
  let ?P = "init ''---'' flat_load flat_dump"
  let ?T = "''---\<newline>a: b\<newline>---\<newline>x---y---z''"
  let ?D = "?P\<lparr>frontmatter := PDict [(''a'', PStr ''b'')],
           content := Some ''\<newline>x---y---z'', initialized := True\<rparr>"
  have h1: "open_read [''a.md'' \<mapsto> File ?T] ''a.md'' = Inr ?T" by (simp add: open_read_def)
  have h2: "load_file ?P [''a.md'' \<mapsto> File ?T] ''a.md'' = Inr ?D" by (simp add: ev)
  have d: "delim ?P = ''---''" by (simp add: init_def)
  from load_file_body [OF h1 h2] have "content ?D = Some (py_join ''---'' (drop 2 (split_from ''---'' ?T)))"
    unfolding d by (rule conjunct1)
  with h2 show ?thesis by simp
qed

text \<open>
  Claim C8, as amended. If the first section of the split is not blank after trimming,
  \<open>load_file\<close> fails with the error of line 53 and returns no document; such a text is not
  blank and does not start with the marker once its leading whitespace is removed. For
  a marker that does not begin with whitespace the converse holds too: a text that is not
  blank and does not start with the marker after trimming has a first section that is
  not blank. A blank text is not among them.
\<close>

theorem load_file_malformed:
  assumes "open_read fs filename = Inr raw"
      and "py_split raw (delim self) = Inr sections"
  shows "(strip (sections ! 0) \<noteq> [] \<longrightarrow>
            load_file self fs filename = Inl (MalformedDocument (sections ! 0))
            \<and> lstrip raw \<noteq> [] \<and> \<not> prefix (delim self) (lstrip raw))
       \<and> (\<not> py_isspace (hd (delim self)) \<and> lstrip raw \<noteq> []
            \<and> \<not> prefix (delim self) (lstrip raw) \<longrightarrow>
            strip (sections ! 0) \<noteq> [])"
    (is "(?P \<longrightarrow> ?Q) \<and> (?R \<longrightarrow> _)")
proof -
  from assms(2) have d: "delim self \<noteq> []" and s: "sections = split_from (delim self) raw"
    by (auto simp: py_split_def split: if_splits)
  obtain s0 rest where sp: "split_from (delim self) raw = s0 # rest"
    using split_from_nonempty [of "delim self" raw] by (cases "split_from (delim self) raw") auto
  from first_section [OF d sp]
  have p: "prefix s0 raw" and n: "\<forall>i<length s0. \<not> prefix (delim self) (drop i raw)" by auto
  have a: "load_file self fs filename = Inl (MalformedDocument (sections ! 0))
           \<and> lstrip raw \<noteq> [] \<and> \<not> prefix (delim self) (lstrip raw)"
    if h: "strip (sections ! 0) \<noteq> []"
  proof -
    from assms h have l: "load_file self fs filename = Inl (MalformedDocument (sections ! 0))"
      by (simp add: load_file_def)
    from h s sp have "strip s0 \<noteq> []" by simp
    from lstrip_first_section [OF p this]
    obtain k where k: "k < length s0" "lstrip raw = drop k raw" by blast
    from p have "length s0 \<le> length raw" by (rule prefix_length_le)
    with k have "lstrip raw \<noteq> []" by simp
    moreover from k n have "\<not> prefix (delim self) (lstrip raw)" by simp
    ultimately show ?thesis using l by simp
  qed
  have b: "strip (sections ! 0) \<noteq> []"
    if "\<not> py_isspace (hd (delim self))" "lstrip raw \<noteq> []" "\<not> prefix (delim self) (lstrip raw)"
    using blank_first_section [OF sp d that] s sp by simp
  show ?thesis
  proof (rule conjI)
    show "?P \<longrightarrow> ?Q"
    proof (rule impI)
      assume ?P
      then show ?Q by (rule a)
    qed
    show "?R \<longrightarrow> ?P"
    proof (rule impI)
      assume ?R
      then have "\<not> py_isspace (hd (delim self))" "lstrip raw \<noteq> []"
        "\<not> prefix (delim self) (lstrip raw)" by simp_all
      then show ?P by (rule b)
    qed
  qed
qed

theorem load_file_malformed_witness:
  "strip ''x'' \<noteq> []
   \<and> load_file (init ''---'' flat_load flat_dump) [''a.md'' \<mapsto> File ''x---y''] ''a.md''
       = Inl (MalformedDocument ''x'')
   \<and> \<not> prefix ''---'' (lstrip ''x---y'')"
proof -
  let ?P = "init ''---'' flat_load flat_dump"
  have h1: "open_read [''a.md'' \<mapsto> File ''x---y''] ''a.md'' = Inr ''x---y''"
    by (simp add: open_read_def)
  have h2: "py_split ''x---y'' (delim ?P) = Inr [''x'', ''y'']"
    by (simp add: py_split_def init_def)
  have d: "delim ?P = ''---''" by (simp add: init_def)
  have n: "[''x'', ''y''] ! 0 = ''x''" by simp
  have r: "\<not> py_isspace (hd ''---'') \<and> lstrip ''x---y'' \<noteq> []
           \<and> \<not> prefix ''---'' (lstrip ''x---y'')"
    by (simp add: lstrip_def py_isspace_def)
  note t = load_file_malformed [OF h1 h2, unfolded d n]
  note p = mp [OF conjunct2 [OF t] r]
  note q = mp [OF conjunct1 [OF t] p]
  show ?thesis
    apply (intro conjI)
      apply (rule p)
     apply (rule conjunct1 [OF q])
    apply (rule conjunct2 [OF conjunct2 [OF q]])
    done
qed

text \<open>
  A text of blanks does not start with the marker after trimming, and fails with the
  error of line 56, not with the one of line 53.
\<close>

theorem blank_text_counterexample:
  "\<not> prefix ''---'' (lstrip [CHR '' '', CHR 0x0A])
   \<and> load_file (init ''---'' flat_load flat_dump) [''a.md'' \<mapsto> File [CHR '' '', CHR 0x0A]] ''a.md''
       = Inl (MissingDelimiters ''a.md'')"
  by (simp add: ev)

text \<open>
  Claim C9, as amended. The test of the first section comes first. If the first section
  is blank after trimming and the split has fewer than three sections, \<open>load_file\<close>
  fails with the error of line 56; with three sections or more that error is never raised.
\<close>

theorem load_file_missing_delimiters:
  assumes "open_read fs filename = Inr raw"
      and "py_split raw (delim self) = Inr sections"
  shows "(strip (sections ! 0) = [] \<and> length sections < 3 \<longrightarrow>
            load_file self fs filename = Inl (MissingDelimiters filename))
       \<and> (3 \<le> length sections \<longrightarrow>
            (\<forall>f. load_file self fs filename \<noteq> Inl (MissingDelimiters f)))"
  using assms by (auto simp: load_file_def split: sum.splits)

theorem load_file_missing_delimiters_witness:
  "open_read [''a.md'' \<mapsto> File ''---y''] ''a.md'' = Inr ''---y''
   \<and> py_split ''---y'' ''---'' = Inr ['''', ''y'']
   \<and> load_file (init ''---'' flat_load flat_dump) [''a.md'' \<mapsto> File ''---y''] ''a.md''
        = Inl (MissingDelimiters ''a.md'')
   \<and> open_read [''b.md'' \<mapsto> File ''------''] ''b.md'' = Inr ''------''
   \<and> py_split ''------'' ''---'' = Inr ['''', '''', '''']
   \<and> load_file (init ''---'' flat_load flat_dump) [''b.md'' \<mapsto> File ''------''] ''b.md''
        \<noteq> Inl (MissingDelimiters ''b.md'')"
proof -
  let ?P = "init ''---'' flat_load flat_dump"
  have h1: "open_read [''a.md'' \<mapsto> File ''---y''] ''a.md'' = Inr ''---y''"
    by (simp add: open_read_def)
  have h2: "py_split ''---y'' (delim ?P) = Inr ['''', ''y'']"
    by (simp add: py_split_def init_def)
  have g1: "open_read [''b.md'' \<mapsto> File ''------''] ''b.md'' = Inr ''------''"
    by (simp add: open_read_def)
  have g2: "py_split ''------'' (delim ?P) = Inr ['''', '''', '''']"
    by (simp add: py_split_def init_def)
  have s: "strip (['''', ''y''] ! 0) = []" by (simp add: strip_def lstrip_def rstrip_def)
  from load_file_missing_delimiters [OF h1 h2] s
  have a: "load_file ?P [''a.md'' \<mapsto> File ''---y''] ''a.md'' = Inl (MissingDelimiters ''a.md'')"
    by simp
  from load_file_missing_delimiters [OF g1 g2]
  have b: "load_file ?P [''b.md'' \<mapsto> File ''------''] ''b.md'' \<noteq> Inl (MissingDelimiters ''b.md'')"
    by simp
  from a b h1 h2 g1 g2 show ?thesis by (simp add: init_def)
qed

text \<open>
  The text \<open>x---y\<close> has one marker and two sections, and fails with the error of line 53,
  not with the one of line 56.
\<close>

theorem one_marker_counterexample:
  "py_split ''x---y'' ''---'' = Inr [''x'', ''y'']
   \<and> load_file (init ''---'' flat_load flat_dump) [''a.md'' \<mapsto> File ''x---y''] ''a.md''
        = Inl (MalformedDocument ''x'')
   \<and> load_file (init ''---'' flat_load flat_dump) [''a.md'' \<mapsto> File ''x---y''] ''a.md''
        \<noteq> Inl (MissingDelimiters ''a.md'')"
  by (simp add: ev)

section \<open>Serialising\<close>

text \<open>
  Claim C10. A freshly constructed object holds the empty mapping and the empty string,
  so the test of line 72 is false; when the encoder returns \<open>enc\<close> for the empty mapping,
  \<open>dumps\<close> returns the marker, the trimmed \<open>enc\<close>, the marker and an empty body joined by
  newlines. The flag \<open>initialized\<close> has no influence on \<open>dumps\<close>.
\<close>

theorem dumps_fresh:
  assumes "w (PDict []) = Inr enc"
  shows "frontmatter (init d l w) \<noteq> PNone \<and> content (init d l w) \<noteq> None
       \<and> dumps (init d l w) = Inr (d @ [CHR 0x0A] @ strip enc @ [CHR 0x0A] @ d @ [CHR 0x0A])
       \<and> dumps ((init d l w)\<lparr>initialized := True\<rparr>) = dumps (init d l w)"
  using assms by (simp add: dumps_def init_def lstrip_def)

theorem dumps_fresh_witness:
  "flat_dump (PDict []) = Inr ''{}\<newline>''
   \<and> dumps (init ''---'' flat_load flat_dump) = Inr ''---\<newline>{}\<newline>---\<newline>''"
proof -
  have h: "flat_dump (PDict []) = Inr ''{}\<newline>''" by (simp add: flat_dump_def)
  have s: "strip ''{}\<newline>'' = ''{}''" by (simp add: strip_def lstrip_def rstrip_def py_isspace_def)
  from dumps_fresh [where w = flat_dump and d = "''---''" and l = flat_load, OF h] h s
  show ?thesis by simp
qed




section \<open>The decoder of the front matter\<close>

text \<open>
  Claim C5, as amended. Line 18 registers the \<open>!join\<close> handler with \<open>Loader\<close>,
  \<open>FullLoader\<close> and \<open>UnsafeLoader\<close>, and not with \<open>SafeLoader\<close>. Take a block that
  composes to a mapping with distinct string keys whose values are plain strings or
  sequences of strings tagged \<open>!join\<close>, one of them under the key \<open>k\<close>. Under
  \<open>yaml.full_load\<close>, which reads the configuration (line 248), the block decodes to the
  mapping in which every tagged sequence is replaced by the concatenation of its
  strings, so that the value under \<open>k\<close> is that single string. The front matter is
  decoded by \<open>yaml.safe_load\<close> (line 25), which has no handler for the tag: there the
  decoder raises the \<open>ConstructorError\<close> for the tag \<open>!join\<close>, and so does the parse of a
  document that has the block as its metadata section.
\<close>

theorem join_needs_full_load:
  assumes "distinct (map fst kvs)"
      and "composer block = Inr (Some (block_node kvs))"
      and "(k, Joined ss) \<in> set kvs"
      and "open_read fs filename = Inr raw"
      and "py_split raw d = Inr sections"
      and "strip (sections ! 0) = []"
      and "3 \<le> length sections"
      and "sections ! 1 = block"
  shows "full_load composer block = Inr (block_value kvs)
       \<and> subscript (block_value kvs) k = Inr (PStr (concat ss))
       \<and> safe_load composer block = Inl (NoConstructor ''!join'')
       \<and> create_from_file d (safe_load composer) w fs filename
           = Inl (Library (NoConstructor ''!join''))"
proof -
  have a: "full_load composer block = Inr (block_value kvs)"
    using assms(2)
    by (simp add: full_load_def load_def block_node_def block_value_def full_map
        full_block [OF assms(1)])
  have "distinct (map fst (map (\<lambda>kv. (fst kv, fvalue (snd kv))) kvs))"
    using assms(1) by (simp add: comp_def)
  moreover have "(k, fvalue (Joined ss)) \<in> set (map (\<lambda>kv. (fst kv, fvalue (snd kv))) kvs)"
    using assms(3) by (auto simp: image_iff intro!: bexI [of _ "(k, Joined ss)"])
  ultimately have "map_of (map (\<lambda>kv. (fst kv, fvalue (snd kv))) kvs) k = Some (fvalue (Joined ss))"
    by (rule map_of_is_SomeI)
  then have b: "subscript (block_value kvs) k = Inr (PStr (concat ss))"
    by (simp add: subscript_def block_value_def)
  have c: "safe_load composer block = Inl (NoConstructor ''!join'')"
    using assms(2)
    by (simp add: safe_load_def load_def block_node_def safe_map safe_block [OF assms(3)])
  have e: "create_from_file d (safe_load composer) w fs filename
             = Inl (Library (NoConstructor ''!join''))"
    using assms(4,5,6,7,8) c
    by (simp add: create_from_file_def load_file_def init_def)
  show ?thesis
    apply (intro conjI)
       apply (rule a)
      apply (rule b)
     apply (rule c)
    apply (rule e)
    done
qed

theorem join_needs_full_load_witness:
  "full_load flat_compose ''\<newline>title: Hello\<newline>template_file: !join [a/, b.md]\<newline>''
     = Inr (PDict [(''title'', PStr ''Hello''), (''template_file'', PStr ''a/b.md'')])
   \<and> subscript (PDict [(''title'', PStr ''Hello''), (''template_file'', PStr ''a/b.md'')])
        ''template_file'' = Inr (PStr ''a/b.md'')
   \<and> safe_load flat_compose ''\<newline>title: Hello\<newline>template_file: !join [a/, b.md]\<newline>''
     = Inl (NoConstructor ''!join'')
   \<and> create_from_file ''---'' (safe_load flat_compose) flat_dump
        [''a.md'' \<mapsto> File ''---\<newline>title: Hello\<newline>template_file: !join [a/, b.md]\<newline>---\<newline>body'']
        ''a.md''
     = Inl (Library (NoConstructor ''!join''))"
proof -
  let ?block = "''\<newline>title: Hello\<newline>template_file: !join [a/, b.md]\<newline>''"
  let ?raw = "''---\<newline>title: Hello\<newline>template_file: !join [a/, b.md]\<newline>---\<newline>body''"
  let ?kvs = "[(''title'', Plain ''Hello''), (''template_file'', Joined [''a/'', ''b.md''])]"
  have h1: "distinct (map fst ?kvs)" by simp
  have h2: "flat_compose ?block = Inr (Some (block_node ?kvs))"
    by (simp add: flat_compose_def flat_pairs_def flat_pair_def flat_value_def flat_scalar_def
        is_word_def bool_values_def block_node_def Let_def)
  have h3: "(''template_file'', Joined [''a/'', ''b.md'']) \<in> set ?kvs" by simp
  have h4: "open_read [''a.md'' \<mapsto> File ?raw] ''a.md'' = Inr ?raw" by (simp add: open_read_def)
  have h5: "py_split ?raw ''---'' = Inr ['''', ?block, ''\<newline>body'']" by (simp add: py_split_def)
  have h6: "strip (['''', ?block, ''\<newline>body''] ! 0) = []"
    by (simp add: strip_def lstrip_def rstrip_def)
  have h7: "3 \<le> length ['''', ?block, ''\<newline>body'']" by simp
  have h8: "['''', ?block, ''\<newline>body''] ! 1 = ?block" by simp
  have v: "block_value ?kvs = PDict [(''title'', PStr ''Hello''), (''template_file'', PStr ''a/b.md'')]"
    by (simp add: block_value_def)
  have c: "concat [''a/'', ''b.md''] = ''a/b.md''" by simp
  note t = join_needs_full_load [where composer = flat_compose and block = ?block and kvs = ?kvs
      and k = "''template_file''" and ss = "[''a/'', ''b.md'']"
      and fs = "[''a.md'' \<mapsto> File ?raw]" and filename = "''a.md''" and raw = ?raw
      and d = "''---''" and sections = "['''', ?block, ''\<newline>body'']" and w = flat_dump,
      OF h1 h2 h3 h4 h5 h6 h7 h8, unfolded v c]
  show ?thesis by (rule t)
qed

text \<open>
  A document whose front matter builds \<open>template_file\<close> with \<open>!join\<close> is rejected by
  the default decoder.
\<close>

theorem front_matter_join_counterexample:
  "create_from_file ''---'' flat_load flat_dump
      [''a.md'' \<mapsto> File ''---\<newline>template_file: !join [a/, b.md]\<newline>---\<newline>body'']
      ''a.md''
   = Inl (Library (NoConstructor ''!join''))"
  by (simp add: create_from_file_def ev)

section \<open>The converter command\<close>

text \<open>
  Claim C2. \<open>gen_cmd\<close> is to return the command and the output path. It never returns:
  \<open>out_path\<close> is annotated in line 118 and never assigned, so reading it in line 129
  raises \<open>UnboundLocalError\<close> (or an earlier configuration lookup raises); with the
  configuration of the example the error is the unbound name.
\<close>

theorem gen_cmd_unbound:
  "gen_cmd CFG plain_path plain_path_out \<noteq> Inr r
   \<and> gen_cmd example_cfg ''a'' None = Inl (UnboundLocalError ''out_path'')"
  by (simp add: gen_cmd_def example_cfg_def subscript_def split: sum.splits)

section \<open>Re-rendering the converter's output\<close>

text \<open>
  Claim C1. With \<open>mustache_rerender\<close> enabled, \<open>gen_page\<close> is to re-read the converter's
  output, render it with the document's metadata and write it back (lines 210 to 215).
  That step is never reached: the call of \<open>gen_cmd\<close> in line 204 raises before the
  converter is started, so \<open>gen_page\<close> returns for no document and its outcome does
  not depend on the converter. For the document \<open>content/a.md\<close> with the metadata
  \<open>title: Hello\<close> and the configuration of the example, in which \<open>mustache_rerender\<close> is
  true, \<open>gen_page\<close> raises the \<open>UnboundLocalError\<close> of line 129.
\<close>

theorem gen_page_unbound:
  "gen_page CFG lib fs md_path \<noteq> Inr fs'
   \<and> gen_page CFG (lib\<lparr>run := converter\<rparr>) fs md_path = gen_page CFG lib fs md_path
   \<and> subscript example_cfg ''mustache_rerender'' = Inr (PBool True)
   \<and> gen_page example_cfg (example_lib empty_listing) page_store (Path_of ''content/a.md'')
       = Inl (UnboundLocalError ''out_path'')"
proof -
  have a: "gen_page CFG lib fs md_path \<noteq> Inr fs'"
    by (auto simp: gen_page_def gen_cmd_raises split: sum.splits prod.splits)
  have b: "gen_page CFG (lib\<lparr>run := converter\<rparr>) fs md_path = gen_page CFG lib fs md_path"
    by (auto simp: gen_page_def index_step_run gen_cmd_raises split: sum.splits prod.splits)
  have c: "subscript example_cfg ''mustache_rerender'' = Inr (PBool True)"
    by (simp add: example_cfg_def subscript_def)
  have p: "path_str (Path_of ''content/a.md'') = ''content/a.md''" by (simp add: pv)
  have g: "get_plain_path example_cfg (Path_of ''content/a.md'') = Inr (Path [] [''a''])"
    unfolding get_plain_path_def p
    by (simp add: example_cfg_def subscript_def to_path_def relative_to_def pv suffix_def)
  have f: "create_from_file ''---'' (safe_load (compose (example_lib empty_listing)))
             (yaml_dump (example_lib empty_listing)) page_store ''content/a.md''
           = Inr ((init ''---'' (safe_load flat_compose) flat_dump)
                   \<lparr>frontmatter := PDict [(''title'', PStr ''Hello'')],
                    content := Some ''\<newline>Hello body.\<newline>'', initialized := True\<rparr>)"
    by (simp add: cv page_store_def)
  have i: "index_step example_cfg (example_lib empty_listing) page_store (Path_of ''content/a.md'')
             ((init ''---'' (safe_load flat_compose) flat_dump)
                   \<lparr>frontmatter := PDict [(''title'', PStr ''Hello'')],
                    content := Some ''\<newline>Hello body.\<newline>'', initialized := True\<rparr>)
           = Inr (None, page_store)"
    by (simp add: index_step_def example_cfg_def subscript_def py_in_def)
  have u: "gen_cmd example_cfg (path_str (Path [] [''a''])) None = Inl (UnboundLocalError ''out_path'')"
    by (simp add: gen_cmd_def example_cfg_def subscript_def)
  have s: "isfile page_store ''content/a.md''" by (simp add: isfile_def page_store_def)
  have d: "gen_page example_cfg (example_lib empty_listing) page_store (Path_of ''content/a.md'')
       = Inl (UnboundLocalError ''out_path'')"
    unfolding gen_page_def p by (simp add: s g f i u)
  show ?thesis
    apply (intro conjI)
       apply (rule a)
      apply (rule b)
     apply (rule c)
    apply (rule d)
    done
qed

section \<open>The index page\<close>

text \<open>
  Claim C4. The siblings of an index document are to be the files of its directory
  whose name starts with its stem. Line 166 takes them from a glob with the pattern made
  of the stem and a star, and the stem is not escaped: a \<open>?\<close> in it stands for any
  character. For the index document \<open>a?.md\<close> next to \<open>ab.md\<close> the stem is \<open>a?\<close>, the
  glob yields both files, and the metadata of \<open>ab.md\<close>, whose name does not start with
  the stem, is collected as a child; the index page is written with these children.
\<close>

theorem glob_unescaped_stem:
  "stem (Path_of ''a?.md'') = ''a?''
   \<and> glob (example_lib wildcard_listing) (parent (Path_of ''a?.md''))
        (stem (Path_of ''a?.md'') @ ''*'')
     = Inr [Path [] [''a?.md''], Path [] [''ab.md'']]
   \<and> \<not> prefix (stem (Path_of ''a?.md'')) ''ab.md''
   \<and> downstream_frontmatter (example_lib wildcard_listing) wildcard_store
        [Path [] [''a?.md''], Path [] [''ab.md'']]
     = Inr [PDict [(''index'', PBool True), (''__filename__'', PStr ''a?.md'')],
            PDict [(''title'', PStr ''B''), (''__filename__'', PStr ''ab.md'')]]
   \<and> add_index_page example_cfg (example_lib wildcard_listing) wildcard_store
        (Path_of ''a?.md'')
     = Inr (Path [] [''a?._index.md''],
            wildcard_store(''a?._index.md'' \<mapsto>
              File ''---\<newline>{index: true}\<newline>---\<newline>Index\<newline>''))"
proof -
  let ?lib = "example_lib wildcard_listing"
  let ?po = "Path_of ''a?.md''"
  let ?doc = "(init ''---'' (safe_load (compose ?lib)) (yaml_dump ?lib))
                \<lparr>frontmatter := PDict [(''index'', PBool True)],
                 content := Some ''\<newline>Index\<newline>'', initialized := True\<rparr>"
  let ?paths = "[Path [] [''a?.md''], Path [] [''ab.md'']]"
  let ?children = "[PDict [(''index'', PBool True), (''__filename__'', PStr ''a?.md'')],
                    PDict [(''title'', PStr ''B''), (''__filename__'', PStr ''ab.md'')]]"
  have st: "stem ?po = ''a?''" by (simp add: pv)
  have ps: "path_str ?po = ''a?.md''" by (simp add: pv)
  have pn: "Path_of (removesuffix (path_str ?po) ''.md'' @ ''._index.md'')
              = Path [] [''a?._index.md'']"
    unfolding ps by (simp add: pv suffix_def)
  have pns: "path_str (Path [] [''a?._index.md'']) = ''a?._index.md''" by (simp add: pv)
  have a: "glob ?lib (parent ?po) (stem ?po @ ''*'') = Inr ?paths"
    by (simp add: glob_def example_lib_def wildcard_listing_def pv sublist_Cons_right)
  have b: "\<not> prefix (stem ?po) ''ab.md''" by (simp add: pv)
  have c: "downstream_frontmatter ?lib wildcard_store ?paths = Inr ?children"
    by (simp add: cv wildcard_store_def set_item_def path_str_def)
  have h1: "subscript example_cfg ''generated_index_suffix'' = Inr (PStr ''._index.md'')"
    by (simp add: example_cfg_def subscript_def)
  have h2: "create_from_file ''---'' (safe_load (compose ?lib)) (yaml_dump ?lib) wildcard_store
              (path_str ?po) = Inr ?doc"
    unfolding ps by (simp add: cv wildcard_store_def)
  have h3: "append_template wildcard_store ?doc = Inr ?doc"
    by (simp add: append_template_def py_in_def)
  have h7: "content ?doc = Some ''\<newline>Index\<newline>''" by simp
  have h8: "render ?lib ''\<newline>Index\<newline>'' (PDict [(''children'', PList ?children)])
              = Inr ''\<newline>Index\<newline>''"
    by (simp add: example_lib_def)
  have h9: "wildcard_store (path_str (Path_of (removesuffix (path_str ?po) ''.md'' @ ''._index.md'')))
              \<noteq> Some Dir"
    unfolding pn pns by (simp add: wildcard_store_def)
  have h10: "dumps (?doc\<lparr>content := Some ''\<newline>Index\<newline>''\<rparr>)
               = Inr ''---\<newline>{index: true}\<newline>---\<newline>Index\<newline>''"
    by (simp add: cv list_all_def)
  note e = add_index_page_steps [OF h1 h2 h3 a c h7 h8 h9 h10, unfolded pn pns]
  show ?thesis
    apply (intro conjI)
        apply (rule st)
       apply (rule a)
      apply (rule b)
     apply (rule c)
    apply (rule e)
    done
qed

text \<open>
  For a stem without the characters \<open>*\<close>, \<open>?\<close> and \<open>[\<close> the glob yields the entries of
  the directory whose name starts with the stem, in the order of enumeration, the
  document itself among them; if each of them parses to a mapping, the body is rendered
  with the single variable \<open>children\<close> bound to the sequence of their metadata, each with
  the key \<open>__filename__\<close> set to its path, and the document is written to the new path
  with the render result as its body.
\<close>

lemma add_index_page_children:
  assumes "subscript CFG ''generated_index_suffix'' = Inr (PStr suf)"
      and "create_from_file ''---'' (safe_load (compose lib)) (yaml_dump lib) fs
             (path_str path_original) = Inr doc"
      and "append_template fs doc = Inr doc1"
      and "\<forall>c\<in>set (stem path_original). c \<notin> set ''*?[''"
      and "siblings = map (\<lambda>n. path_div (parent path_original) (Path [] [n]))
                        (filter (prefix (stem path_original))
                           (listdir lib (path_str (parent path_original))))"
      and "list_all2 (\<lambda>p kvs. \<exists>d. create_from_file ''---'' (safe_load (compose lib)) (yaml_dump lib)
                              fs (path_str p) = Inr d \<and> frontmatter d = PDict kvs) siblings fms"
      and "content doc1 = Some body"
      and "render lib body (PDict [(''children'', PList (map2 augment siblings fms))])
             = Inr new_content"
      and "fs (path_str (Path_of (removesuffix (path_str path_original) ''.md'' @ suf))) \<noteq> Some Dir"
      and "dumps (doc1\<lparr>content := Some new_content\<rparr>) = Inr s"
  shows "add_index_page CFG lib fs path_original =
           Inr (Path_of (removesuffix (path_str path_original) ''.md'' @ suf),
                fs(path_str (Path_of (removesuffix (path_str path_original) ''.md'' @ suf))
                     \<mapsto> File s))
       \<and> (parts path_original \<noteq> [] \<and>
            path_name path_original \<in> set (listdir lib (path_str (parent path_original)))
            \<longrightarrow> path_original \<in> set siblings)"
proof -
  have g: "glob lib (parent path_original) (stem path_original @ ''*'') = Inr siblings"
    unfolding assms(5) by (rule glob_prefix [OF assms(4)])
  have d: "downstream_frontmatter lib fs siblings = Inr (map2 augment siblings fms)"
    by (rule downstream_all [OF assms(6)])
  note a = add_index_page_steps [OF assms(1,2,3) g d assms(7,8,9,10)]
  have b: "path_original \<in> set siblings"
    if "parts path_original \<noteq> []"
      and "path_name path_original \<in> set (listdir lib (path_str (parent path_original)))"
  proof -
    from that(1) have "path_div (parent path_original) (Path [] [path_name path_original])
                        = path_original"
      by (cases path_original) (simp add: path_div_def parent_def path_name_def)
    moreover have "path_name path_original \<in>
        set (filter (prefix (stem path_original)) (listdir lib (path_str (parent path_original))))"
      using that(2) stem_prefix [of path_original] by simp
    ultimately show ?thesis unfolding assms(5) set_map by (rule image_eqI [OF sym])
  qed
  from a b show ?thesis by simp
qed

lemma add_index_page_children_example:
  "add_index_page example_cfg (example_lib example_listing) example_store
      (Path_of ''content/notes.md'')
   = Inr (Path [] [''content'', ''notes._index.md''],
          example_store(''content/notes._index.md'' \<mapsto>
             File ''---\<newline>{index: true}\<newline>---\<newline>Index\<newline>''))
   \<and> Path_of ''content/notes.md''
       \<in> set [Path [] [''content'', ''notes.md''], Path [] [''content'', ''notes.1.md'']]"
proof -
  let ?lib = "example_lib example_listing"
  let ?po = "Path_of ''content/notes.md''"
  let ?doc = "(init ''---'' (safe_load (compose ?lib)) (yaml_dump ?lib))
                \<lparr>frontmatter := PDict [(''index'', PBool True)],
                 content := Some ''\<newline>Index\<newline>'', initialized := True\<rparr>"
  let ?sib = "[Path [] [''content'', ''notes.md''], Path [] [''content'', ''notes.1.md'']]"
  let ?fms = "[[(''index'', PBool True)], [(''title'', PStr ''One'')]]"
  have po: "?po = Path [] [''content'', ''notes.md'']" by (simp add: Path_of_def)
  have ps: "path_str ?po = ''content/notes.md''" by (simp add: pv)
  have st: "stem ?po = ''notes''" by (simp add: pv)
  have pa: "path_str (parent ?po) = ''content''" by (simp add: pv)
  have pn: "Path_of (removesuffix (path_str ?po) ''.md'' @ ''._index.md'')
              = Path [] [''content'', ''notes._index.md'']"
    unfolding ps by (simp add: pv suffix_def)
  have pns: "path_str (Path [] [''content'', ''notes._index.md'']) = ''content/notes._index.md''"
    by (simp add: pv)
  have h1: "subscript example_cfg ''generated_index_suffix'' = Inr (PStr ''._index.md'')"
    by (simp add: example_cfg_def subscript_def)
  have h2: "create_from_file ''---'' (safe_load (compose ?lib)) (yaml_dump ?lib) example_store
              (path_str ?po) = Inr ?doc"
    unfolding ps by (simp add: cv example_store_def)
  have h3: "append_template example_store ?doc = Inr ?doc"
    by (simp add: append_template_def py_in_def)
  have h4: "\<forall>c\<in>set (stem ?po). c \<notin> set ''*?[''" unfolding st by simp
  have h5: "?sib = map (\<lambda>n. path_div (parent ?po) (Path [] [n]))
                     (filter (prefix (stem ?po)) (listdir ?lib (path_str (parent ?po))))"
    unfolding st pa by (simp add: example_lib_def example_listing_def pv)
  have f1: "create_from_file ''---'' (safe_load (compose ?lib)) (yaml_dump ?lib) example_store
              ''content/notes.md'' = Inr ?doc"
    using h2 unfolding ps .
  have f2: "\<exists>d. create_from_file ''---'' (safe_load (compose ?lib)) (yaml_dump ?lib) example_store
              ''content/notes.1.md'' = Inr d \<and> frontmatter d = PDict [(''title'', PStr ''One'')]"
    by (simp add: cv example_store_def)
  have h6: "list_all2 (\<lambda>p kvs. \<exists>d. create_from_file ''---'' (safe_load (compose ?lib)) (yaml_dump ?lib)
                              example_store (path_str p) = Inr d \<and> frontmatter d = PDict kvs)
              ?sib ?fms"
    using f1 f2 by (simp add: path_str_def)
  have h7: "content ?doc = Some ''\<newline>Index\<newline>''" by simp
  have h8: "render ?lib ''\<newline>Index\<newline>'' (PDict [(''children'', PList (map2 augment ?sib ?fms))])
              = Inr ''\<newline>Index\<newline>''"
    by (simp add: example_lib_def)
  have h9: "example_store (path_str (Path_of (removesuffix (path_str ?po) ''.md'' @ ''._index.md'')))
              \<noteq> Some Dir"
    unfolding pn pns by (simp add: example_store_def)
  have h10: "dumps (?doc\<lparr>content := Some ''\<newline>Index\<newline>''\<rparr>)
               = Inr ''---\<newline>{index: true}\<newline>---\<newline>Index\<newline>''"
    by (simp add: cv list_all_def)
  note r = add_index_page_children [OF h1 h2 h3 h4 h5 h6 h7 h8 h9 h10, unfolded pn pns]
  from r show ?thesis by (simp add: po)
qed

text \<open>
  Claim C6. If the metadata of the index document is a mapping with the key
  \<open>template_file\<close> naming a readable file, the contents of that file are appended to the
  body, and the text handed to the template engine is the original body followed by those
  contents; the written document carries the render result. With an empty original body
  the template engine receives the contents of the template file alone.
\<close>

theorem add_index_page_template:
  assumes "subscript CFG ''generated_index_suffix'' = Inr (PStr suf)"
      and "create_from_file ''---'' (safe_load (compose lib)) (yaml_dump lib) fs
             (path_str path_original) = Inr doc"
      and "frontmatter doc = PDict kvs"
      and "map_of kvs ''template_file'' = Some (PStr tf)"
      and "open_read fs tf = Inr t"
      and "content doc = Some body"
      and "glob lib (parent path_original) (stem path_original @ ''*'') = Inr paths"
      and "downstream_frontmatter lib fs paths = Inr children"
      and "render lib (body @ t) (PDict [(''children'', PList children)]) = Inr new_content"
      and "fs (path_str (Path_of (removesuffix (path_str path_original) ''.md'' @ suf))) \<noteq> Some Dir"
      and "dumps (doc\<lparr>content := Some new_content\<rparr>) = Inr s"
  shows "append_template fs doc = Inr (doc\<lparr>content := Some (body @ t)\<rparr>)
       \<and> add_index_page CFG lib fs path_original =
           Inr (Path_of (removesuffix (path_str path_original) ''.md'' @ suf),
                fs(path_str (Path_of (removesuffix (path_str path_original) ''.md'' @ suf))
                     \<mapsto> File s))"
proof -
  from assms(4) have "''template_file'' \<in> set (map fst kvs)"
    using map_of_eq_None_iff [of kvs "''template_file''"] by auto
  with assms(3,4,5,6) have t: "append_template fs doc = Inr (doc\<lparr>content := Some (body @ t)\<rparr>)"
    by (simp add: append_template_def py_in_def subscript_def open_value_def)
  have c: "content (doc\<lparr>content := Some (body @ t)\<rparr>) = Some (body @ t)" by simp
  have d: "dumps (doc\<lparr>content := Some (body @ t)\<rparr>\<lparr>content := Some new_content\<rparr>) = Inr s"
    using assms(11) by simp
  from add_index_page_steps [OF assms(1,2) t assms(7,8) c assms(9,10) d] t show ?thesis by simp
qed

theorem add_index_page_template_witness:
  "add_index_page example_cfg (example_lib example_listing) template_store
      (Path_of ''content/notes.md'')
   = Inr (Path [] [''content'', ''notes._index.md''],
          template_store(''content/notes._index.md'' \<mapsto>
             File ''---\<newline>{index: true, template_file: tmpl.txt}\<newline>---\<newline>List of notes\<newline>''))"
proof -
  let ?lib = "example_lib example_listing"
  let ?po = "Path_of ''content/notes.md''"
  let ?kvs = "[(''index'', PBool True), (''template_file'', PStr ''tmpl.txt'')]"
  let ?doc = "(init ''---'' (safe_load (compose ?lib)) (yaml_dump ?lib))
                \<lparr>frontmatter := PDict ?kvs, content := Some [], initialized := True\<rparr>"
  let ?paths = "[Path [] [''content'', ''notes.md''], Path [] [''content'', ''notes.1.md'']]"
  let ?children = "[PDict [(''index'', PBool True), (''template_file'', PStr ''tmpl.txt''),
                           (''__filename__'', PStr ''content/notes.md'')],
                    PDict [(''title'', PStr ''One''),
                           (''__filename__'', PStr ''content/notes.1.md'')]]"
  have ps: "path_str ?po = ''content/notes.md''" by (simp add: pv)
  have st: "stem ?po = ''notes''" by (simp add: pv)
  have pa: "parent ?po = Path [] [''content'']" by (simp add: pv)
  have pn: "Path_of (removesuffix (path_str ?po) ''.md'' @ ''._index.md'')
              = Path [] [''content'', ''notes._index.md'']"
    unfolding ps by (simp add: pv suffix_def)
  have pns: "path_str (Path [] [''content'', ''notes._index.md'']) = ''content/notes._index.md''"
    by (simp add: pv)
  have h1: "subscript example_cfg ''generated_index_suffix'' = Inr (PStr ''._index.md'')"
    by (simp add: example_cfg_def subscript_def)
  have h2: "create_from_file ''---'' (safe_load (compose ?lib)) (yaml_dump ?lib) template_store
              (path_str ?po) = Inr ?doc"
    unfolding ps by (simp add: cv template_store_def)
  have h3: "frontmatter ?doc = PDict ?kvs" by simp
  have h4: "map_of ?kvs ''template_file'' = Some (PStr ''tmpl.txt'')" by simp
  have h5: "open_read template_store ''tmpl.txt'' = Inr ''List of notes\<newline>''"
    by (simp add: open_read_def template_store_def)
  have h6: "content ?doc = Some []" by simp
  have h7: "glob ?lib (parent ?po) (stem ?po @ ''*'') = Inr ?paths"
    unfolding st pa
    by (simp add: glob_def example_lib_def example_listing_def pv sublist_Cons_right)
  have h8: "downstream_frontmatter ?lib template_store ?paths = Inr ?children"
    by (simp add: cv template_store_def set_item_def path_str_def)
  have h9: "render ?lib ([] @ ''List of notes\<newline>'') (PDict [(''children'', PList ?children)])
              = Inr ''List of notes\<newline>''"
    by (simp add: example_lib_def)
  have h10: "template_store (path_str (Path_of (removesuffix (path_str ?po) ''.md'' @ ''._index.md'')))
              \<noteq> Some Dir"
    unfolding pn pns by (simp add: template_store_def)
  have h11: "dumps (?doc\<lparr>content := Some ''List of notes\<newline>''\<rparr>)
               = Inr ''---\<newline>{index: true, template_file: tmpl.txt}\<newline>---\<newline>List of notes\<newline>''"
    by (simp add: cv list_all_def)
  note r = add_index_page_template [OF h1 h2 h3 h4 h5 h6 h7 h8 h9 h10 h11, unfolded pn pns]
  from r show ?thesis by simp
qed

end
